theory Spec2Isabelle
  imports Complex_Main "HOL-Library.Word" "HOL-Library.Multiset"
begin

section \<open>The forward render queue of the graphics module\<close>

text \<open>
  A shallow embedding of \<^verbatim>\<open>src/Nazara/Graphics/ForwardRenderQueue.cpp\<close>.

  Conventions of the embedding.
  \<^item> A C++ pointer is the address it holds, a natural number; a pointer that the code
    tests against null is an \<open>option\<close> (\<open>None\<close> is \<^verbatim>\<open>nullptr\<close>). The material
    pointer of every \<^verbatim>\<open>Add*\<close> operation is guarded by \<^verbatim>\<open>NazaraAssert(material, ...)\<close>;
    the operations are modelled on non-null materials, so the material has no \<open>option\<close>.
  \<^item> \<^verbatim>\<open>float\<close> is idealised as \<open>real\<close>: rounding, infinities and NaN are not modelled.
  \<^item> \<^verbatim>\<open>unsigned int\<close> counters and sizes are \<open>nat\<close>; the only counter that is
    incremented, \<^verbatim>\<open>clearCount\<close>, is incremented only while it is below 100.
  \<^item> A \<^verbatim>\<open>std::map\<close> is a partial function on its keys. The comparators of the
    material-keyed maps are given below together with the fact that two materials are
    equivalent for them exactly when they are the same pointer; the mesh-keyed map
    is indexed by the triple its comparator compares, and keeps the \<^verbatim>\<open>MeshData\<close> key
    of the first insertion beside the value.
  \<^item> A connected signal slot is the address of the object whose signal it listens to.
  \<^item> Where the source evaluates an expression whose behaviour the language leaves undefined,
    the model returns an error value and no queue.
  \<^item> The lights held by the base class \<^verbatim>\<open>AbstractRenderQueue\<close> are not part of the model.
\<close>

subsection \<open>Data\<close>

type_synonym Material = nat
type_synonym Texture = nat
type_synonym IndexBuffer = nat
type_synonym VertexBuffer = nat
type_synonym Drawable = nat

type_synonym Vector2f = "real \<times> real"
type_synonym Vector3f = "real \<times> real \<times> real"

record Color =
  red :: "8 word"
  green :: "8 word"
  blue :: "8 word"
  alpha :: "8 word"

record Spheref =
  sphere_center :: Vector3f
  radius :: real

record Planef =
  normal :: Vector3f
  distance :: real

record Viewer =
  GetFrustumNearPlane :: Planef
  GetEyePosition :: Vector3f
  GetForward :: Vector3f

record MeshData =
  primitiveMode :: nat
  indexBuffer :: "IndexBuffer option"
  vertexBuffer :: VertexBuffer

record BillboardData =
  color :: Color
  center :: Vector3f
  size_bd :: Vector2f
  sinCos :: Vector2f

record BatchedBillboardEntry =
  billboard_materialReleaseSlot :: "Material option"
  entry_billboards :: "BillboardData list"

record SpriteChain_XYZ_Color_UV =
  vertices :: nat
  spriteCount :: nat

record BatchedSpriteEntry =
  textureReleaseSlot :: "Texture option"
  spriteChains :: "SpriteChain_XYZ_Color_UV list"

record BatchedBasicSpriteEntry =
  sprite_materialReleaseSlot :: "Material option"
  overlayMap :: "Texture option \<rightharpoonup> BatchedSpriteEntry"
  sprite_enabled :: bool

record 'm MeshInstanceEntry =
  indexBufferReleaseSlot :: "IndexBuffer option"
  vertexBufferReleaseSlot :: "VertexBuffer option"
  instances :: "'m list"
  mesh_squaredBoundingSphere :: Spheref

type_synonym MeshKey = "nat \<times> nat \<times> nat"

record 'm BatchedModelEntry =
  materialReleaseSlot :: "Material option"
  meshMap :: "MeshKey \<rightharpoonup> (MeshData \<times> 'm MeshInstanceEntry)"
  enabled :: bool
  instancingEnabled :: bool

record 'm TransparentModelData =
  material :: Material
  meshData :: MeshData
  squaredBoundingSphere :: Spheref
  transformMatrix :: 'm

record 'm Layer =
  billboards :: "Material \<rightharpoonup> BatchedBillboardEntry"
  basicSprites :: "Material \<rightharpoonup> BatchedBasicSpriteEntry"
  opaqueModels :: "Material \<rightharpoonup> 'm BatchedModelEntry"
  transparentModels :: "nat list"
  transparentModelData :: "'m TransparentModelData list"
  otherDrawables :: "Drawable option list"
  clearCount :: nat

record 'm ForwardRenderQueue =
  layers :: "int \<rightharpoonup> 'm Layer"

text \<open>
  Everything the queue reads from its collaborators, whose code is outside the sources:
  the two configuration macros, the state of materials and buffers, and the functions of
  the mathematics module. They are parameters of the model; \<open>'b\<close> is the type of boxes
  (\<^verbatim>\<open>Boxf\<close>) and \<open>'m\<close> the type of matrices (\<^verbatim>\<open>Matrix4f\<close>).
\<close>

record ('b, 'm) Env =
  INSTANCING_MIN_INSTANCES_COUNT :: nat
  GRAPHICS_SAFE :: bool
  IsEnabled_Blend :: "Material \<Rightarrow> bool"
  IsDepthSortingEnabled :: "Material \<Rightarrow> bool"
  GetShader :: "Material \<Rightarrow> nat"
  GetShaderInstance :: "Material \<Rightarrow> nat \<Rightarrow> nat"
  GetDiffuseMap :: "Material \<Rightarrow> nat"
  IndexBuffer_GetBuffer :: "IndexBuffer \<Rightarrow> nat"
  VertexBuffer_GetBuffer :: "VertexBuffer \<Rightarrow> nat"
  GetTranslation :: "'m \<Rightarrow> Vector3f"
  GetCenter :: "'b \<Rightarrow> Vector3f"
  GetSquaredRadius :: "'b \<Rightarrow> real"
  GetSquaredBoundingSphere :: "'b \<Rightarrow> Spheref"
  GetNegativeVertex :: "Spheref \<Rightarrow> Vector3f \<Rightarrow> Vector3f"
  Distance :: "Planef \<Rightarrow> Vector3f \<Rightarrow> real"
  SquaredDistance :: "Vector3f \<Rightarrow> Vector3f \<Rightarrow> real"

subsection \<open>Values and helpers of the core and mathematics modules\<close>

definition Color_White :: Color where
  \<comment> \<open>Modelled from the spec: \<^verbatim>\<open>Color::White\<close> is declared in the core module, which is
      not among the sources; the spec calls it opaque white.\<close>
  "Color_White = \<lparr>red = 255, green = 255, blue = 255, alpha = 255\<rparr>"

definition Vector3f_add :: "Vector3f \<Rightarrow> Vector3f \<Rightarrow> Vector3f" where
  \<comment> \<open>Modelled from the spec: \<^verbatim>\<open>Vector3f::operator+\<close> belongs to the mathematics module,
      which is not among the sources; the sum of two vectors is taken componentwise.\<close>
  "Vector3f_add u v =
     (case u of (ux, uy, uz) \<Rightarrow> case v of (vx, vy, vz) \<Rightarrow> (ux + vx, uy + vy, uz + vz))"

definition ToRadians :: "real \<Rightarrow> real" where
  \<comment> \<open>Modelled from the spec: \<^verbatim>\<open>ToRadians\<close> belongs to the mathematics module, which is
      not among the sources; the spec writes \<^verbatim>\<open>radians(angle)\<close>, angles being in degrees.\<close>
  "ToRadians x = x * pi / 180"

definition UInt8_of_float :: "real \<Rightarrow> 8 word" where
  \<comment> \<open>\<^verbatim>\<open>static_cast<UInt8>(x)\<close>: the fractional part is discarded (towards zero). The
      conversion is defined by the language only when the truncated value fits the
      type, that is for \<open>-1 < x < 256\<close>.\<close>
  "UInt8_of_float x = word_of_int (if 0 \<le> x then \<lfloor>x\<rfloor> else \<lceil>x\<rceil>)"

text \<open>
  \<^verbatim>\<open>SparsePtr<const T>\<close>: a base pointer and a stride. A non-null sparse pointer is
  modelled by the function giving the element read after \<open>i\<close> increments; \<open>None\<close> is the
  null pointer. \<^verbatim>\<open>ptr.Reset(&def, 0)\<close> makes the pointer immobile, so that every read
  yields the default.
\<close>

definition SparsePtr_read :: "(nat \<Rightarrow> 'a) option \<Rightarrow> 'a \<Rightarrow> nat \<Rightarrow> 'a" where
  "SparsePtr_read ptr def i = (case ptr of None \<Rightarrow> def | Some f \<Rightarrow> f i)"

text \<open>
  \<^verbatim>\<open>std::sort(first, last, comp)\<close>, where \<open>before a b\<close>, the comparator, says that \<open>a\<close> goes before \<open>b\<close>.
  The standard fixes the result up to the order of equivalent elements: a permutation
  of the input in which no element goes before an earlier one. The model is insertion
  sort; only these two properties of it are used in what follows.
\<close>

fun std_insert :: "('a \<Rightarrow> 'a \<Rightarrow> bool) \<Rightarrow> 'a \<Rightarrow> 'a list \<Rightarrow> 'a list" where
  "std_insert before x [] = [x]"
| "std_insert before x (y # ys) =
     (if before y x then y # std_insert before x ys else x # y # ys)"

definition std_sort :: "('a \<Rightarrow> 'a \<Rightarrow> bool) \<Rightarrow> 'a list \<Rightarrow> 'a list" where
  "std_sort before xs = foldr (std_insert before) xs []"

subsection \<open>Comparators of the batch maps\<close>

definition ShaderFlags_Billboard_VertexColor :: nat where
  \<comment> \<open>\<^verbatim>\<open>ShaderFlags_Billboard | ShaderFlags_VertexColor\<close>; only its being a fixed flag
      word matters here.\<close>
  "ShaderFlags_Billboard_VertexColor = 1"

definition ShaderFlags_None :: nat where
  "ShaderFlags_None = 0"

definition BatchedBillboardComparator :: "('b, 'm) Env \<Rightarrow> Material \<Rightarrow> Material \<Rightarrow> bool" where
  "BatchedBillboardComparator env mat1 mat2 =
    (if GetShader env mat1 \<noteq> GetShader env mat2 then GetShader env mat1 < GetShader env mat2
     else if GetShaderInstance env mat1 ShaderFlags_Billboard_VertexColor
             \<noteq> GetShaderInstance env mat2 ShaderFlags_Billboard_VertexColor
       then GetShaderInstance env mat1 ShaderFlags_Billboard_VertexColor
             < GetShaderInstance env mat2 ShaderFlags_Billboard_VertexColor
     else if GetDiffuseMap env mat1 \<noteq> GetDiffuseMap env mat2
       then GetDiffuseMap env mat1 < GetDiffuseMap env mat2
     else mat1 < mat2)"

definition BatchedModelMaterialComparator :: "('b, 'm) Env \<Rightarrow> Material \<Rightarrow> Material \<Rightarrow> bool" where
  "BatchedModelMaterialComparator env mat1 mat2 =
    (if GetShader env mat1 \<noteq> GetShader env mat2 then GetShader env mat1 < GetShader env mat2
     else if GetShaderInstance env mat1 ShaderFlags_None \<noteq> GetShaderInstance env mat2 ShaderFlags_None
       then GetShaderInstance env mat1 ShaderFlags_None < GetShaderInstance env mat2 ShaderFlags_None
     else if GetDiffuseMap env mat1 \<noteq> GetDiffuseMap env mat2
       then GetDiffuseMap env mat1 < GetDiffuseMap env mat2
     else mat1 < mat2)"

definition BatchedSpriteMaterialComparator :: "('b, 'm) Env \<Rightarrow> Material \<Rightarrow> Material \<Rightarrow> bool" where
  "BatchedSpriteMaterialComparator env mat1 mat2 =
    (if GetShader env mat1 \<noteq> GetShader env mat2 then GetShader env mat1 < GetShader env mat2
     else if GetShaderInstance env mat1 ShaderFlags_None \<noteq> GetShaderInstance env mat2 ShaderFlags_None
       then GetShaderInstance env mat1 ShaderFlags_None < GetShaderInstance env mat2 ShaderFlags_None
     else if GetDiffuseMap env mat1 \<noteq> GetDiffuseMap env mat2
       then GetDiffuseMap env mat1 < GetDiffuseMap env mat2
     else mat1 < mat2)"

definition MeshData_key :: "('b, 'm) Env \<Rightarrow> MeshData \<Rightarrow> MeshKey" where
  \<comment> \<open>The three values \<^verbatim>\<open>MeshDataComparator\<close> compares, in its order; a null index
      buffer gives the null buffer, address 0.\<close>
  "MeshData_key env data =
     ((case indexBuffer data of None \<Rightarrow> 0 | Some ib \<Rightarrow> IndexBuffer_GetBuffer env ib),
      VertexBuffer_GetBuffer env (vertexBuffer data),
      primitiveMode data)"

definition MeshDataComparator :: "('b, 'm) Env \<Rightarrow> MeshData \<Rightarrow> MeshData \<Rightarrow> bool" where
  "MeshDataComparator env data1 data2 =
    (let buffer1 = (case indexBuffer data1 of None \<Rightarrow> 0 | Some ib \<Rightarrow> IndexBuffer_GetBuffer env ib);
         buffer2 = (case indexBuffer data2 of None \<Rightarrow> 0 | Some ib \<Rightarrow> IndexBuffer_GetBuffer env ib)
     in if buffer1 \<noteq> buffer2 then buffer1 < buffer2
        else let buffer1 = VertexBuffer_GetBuffer env (vertexBuffer data1);
                 buffer2 = VertexBuffer_GetBuffer env (vertexBuffer data2)
             in if buffer1 \<noteq> buffer2 then buffer1 < buffer2
                else primitiveMode data1 < primitiveMode data2)"

subsection \<open>Layers\<close>

definition Layer_new :: "'m Layer" where
  \<comment> \<open>\<^verbatim>\<open>Layer()\<close>: empty containers; \<^verbatim>\<open>GetLayer\<close> sets the counter in any case.\<close>
  "Layer_new = \<lparr>billboards = Map.empty, basicSprites = Map.empty, opaqueModels = Map.empty,
                transparentModels = [], transparentModelData = [], otherDrawables = [],
                clearCount = 0\<rparr>"

definition GetLayer :: "int \<Rightarrow> 'm ForwardRenderQueue \<Rightarrow> 'm Layer \<times> 'm ForwardRenderQueue" where
  \<comment> \<open>The reference returned by the source is the layer stored under key \<open>i\<close>; the
      callers below write the layer they have changed back under that key.\<close>
  "GetLayer i q =
     (let layer = (case layers q i of None \<Rightarrow> Layer_new | Some l \<Rightarrow> l)\<lparr>clearCount := 0\<rparr>
      in (layer, q\<lparr>layers := (layers q)(i \<mapsto> layer)\<rparr>))"

subsection \<open>Billboards\<close>

definition BatchedBillboardEntry_connected :: "Material \<Rightarrow> BatchedBillboardEntry" where
  \<comment> \<open>A fresh entry whose slot has been connected to the material's release signal.\<close>
  "BatchedBillboardEntry_connected mat =
     \<lparr>billboard_materialReleaseSlot = Some mat, entry_billboards = []\<rparr>"

definition AddBillboard ::
  "int \<Rightarrow> Material \<Rightarrow> Vector3f \<Rightarrow> Vector2f \<Rightarrow> Vector2f \<Rightarrow> Color \<Rightarrow>
   'm ForwardRenderQueue \<Rightarrow> 'm ForwardRenderQueue" where
  "AddBillboard renderOrder mat position sz sc col q =
     (let (layer, q1) = GetLayer renderOrder q;
          entry = (case billboards layer mat of
                     None \<Rightarrow> BatchedBillboardEntry_connected mat
                   | Some e \<Rightarrow> e);
          entry' = entry\<lparr>entry_billboards := entry_billboards entry
                      @ [\<lparr>color = col, center = position, size_bd = sz, sinCos = sc\<rparr>]\<rparr>
      in q1\<lparr>layers := (layers q1)(renderOrder \<mapsto>
              layer\<lparr>billboards := (billboards layer)(mat \<mapsto> entry')\<rparr>)\<rparr>)"

definition BillboardData_default :: BillboardData where
  \<comment> \<open>The value of the elements that \<^verbatim>\<open>resize\<close> adds; every one of them is
      overwritten by the loop of the caller.\<close>
  "BillboardData_default =
     \<lparr>color = \<lparr>red = 0, green = 0, blue = 0, alpha = 0\<rparr>, center = (0, 0, 0),
      size_bd = (0, 0), sinCos = (0, 0)\<rparr>"

datatype error = OutOfRangeSubscript

definition GetBillboardData ::
  "int \<Rightarrow> Material \<Rightarrow> nat \<Rightarrow> 'm ForwardRenderQueue \<Rightarrow>
   error + nat \<times> 'm ForwardRenderQueue" where
  \<comment> \<open>The pointer returned by the source is \<^verbatim>\<open>&billboardVector[prevSize]\<close>; the model
      returns \<open>prevSize\<close>, the offset of that pointer in the vector of the entry. The
      subscript is evaluated after the resize and is defined only below the new size of
      the vector: with a count of zero \<open>prevSize\<close> is that size, and the behaviour is
      undefined (a checked standard library aborts there).\<close>
  "GetBillboardData renderOrder mat cnt q =
     (let (layer, q1) = GetLayer renderOrder q;
          entry = (case billboards layer mat of
                     None \<Rightarrow> BatchedBillboardEntry_connected mat
                   | Some e \<Rightarrow> e);
          prevSize = length (entry_billboards entry);
          entry' = entry\<lparr>entry_billboards := entry_billboards entry
                      @ replicate cnt BillboardData_default\<rparr>
      in if prevSize < length (entry_billboards entry')
         then Inr (prevSize, q1\<lparr>layers := (layers q1)(renderOrder \<mapsto>
                     layer\<lparr>billboards := (billboards layer)(mat \<mapsto> entry')\<rparr>)\<rparr>)
         else Inl OutOfRangeSubscript)"

text \<open>
  The eight overloads of \<^verbatim>\<open>AddBillboards\<close> differ only in the element types of three
  of their pointers: sizes are vectors or scalars, rotations are sine and cosine pairs or
  angles, colours are colours or alpha values. The overload chosen by the compiler is
  the constructor of each argument here. Positions and sizes are dereferenced without a
  test, so they are non-null.
\<close>

datatype SizePtr = SizeVector2f "nat \<Rightarrow> Vector2f" | SizeFloat "nat \<Rightarrow> real"

datatype RotationPtr = SinCosPtr "(nat \<Rightarrow> Vector2f) option" | AnglePtr "(nat \<Rightarrow> real) option"

datatype ColorPtr = ColorPtr "(nat \<Rightarrow> Color) option" | AlphaPtr "(nat \<Rightarrow> real) option"

definition billboard_of ::
  "(nat \<Rightarrow> Vector3f) \<Rightarrow> SizePtr \<Rightarrow> RotationPtr \<Rightarrow> ColorPtr \<Rightarrow> nat \<Rightarrow> BillboardData" where
  \<comment> \<open>What the body of the loop writes at iteration \<open>i\<close>.\<close>
  "billboard_of positionPtr sizePtr rotationPtr colorPtr i =
     \<lparr>color = (case colorPtr of
                 ColorPtr p \<Rightarrow> SparsePtr_read p Color_White i
               | AlphaPtr p \<Rightarrow> \<lparr>red = 255, green = 255, blue = 255,
                                alpha = UInt8_of_float (255 * SparsePtr_read p 1 i)\<rparr>),
      center = positionPtr i,
      size_bd = (case sizePtr of SizeVector2f p \<Rightarrow> p i | SizeFloat p \<Rightarrow> (p i, p i)),
      sinCos = (case rotationPtr of
                  SinCosPtr p \<Rightarrow> SparsePtr_read p (0, 1) i
                | AnglePtr p \<Rightarrow> (sin (ToRadians (SparsePtr_read p 0 i)),
                                 cos (ToRadians (SparsePtr_read p 0 i))))\<rparr>"

definition AddBillboards ::
  "int \<Rightarrow> Material \<Rightarrow> nat \<Rightarrow> (nat \<Rightarrow> Vector3f) \<Rightarrow> SizePtr \<Rightarrow> RotationPtr \<Rightarrow> ColorPtr \<Rightarrow>
   'm ForwardRenderQueue \<Rightarrow> error + 'm ForwardRenderQueue" where
  "AddBillboards renderOrder mat cnt positionPtr sizePtr rotationPtr colorPtr q =
     (case GetBillboardData renderOrder mat cnt q of
        Inl e \<Rightarrow> Inl e
      | Inr (prevSize, q1) \<Rightarrow>
          Inr (q1\<lparr>layers := (\<lambda>k. if k = renderOrder
            then map_option (\<lambda>layer. layer\<lparr>billboards := (\<lambda>m. if m = mat
                   then map_option (\<lambda>entry. entry\<lparr>entry_billboards :=
                          fold (\<lambda>i v. v[prevSize + i :=
                                  billboard_of positionPtr sizePtr rotationPtr colorPtr i])
                            [0..<cnt] (entry_billboards entry)\<rparr>) (billboards layer m)
                   else billboards layer m)\<rparr>) (layers q1 k)
            else layers q1 k)\<rparr>))"

subsection \<open>Drawables, meshes and sprites\<close>

definition AddDrawable ::
  "('b, 'm) Env \<Rightarrow> int \<Rightarrow> Drawable option \<Rightarrow> 'm ForwardRenderQueue \<Rightarrow> 'm ForwardRenderQueue" where
  \<comment> \<open>With \<^verbatim>\<open>NAZARA_GRAPHICS_SAFE\<close> a null drawable is reported and nothing is done.\<close>
  "AddDrawable env renderOrder drawable q =
     (if GRAPHICS_SAFE env \<and> drawable = None then q
      else let (layer, q1) = GetLayer renderOrder q
           in q1\<lparr>layers := (layers q1)(renderOrder \<mapsto>
                   layer\<lparr>otherDrawables := otherDrawables layer @ [drawable]\<rparr>)\<rparr>)"

definition BatchedModelEntry_connected :: "Material \<Rightarrow> 'm BatchedModelEntry" where
  \<comment> \<open>Modelled from the spec: the default values of the members of \<^verbatim>\<open>BatchedModelEntry\<close>
      are given by its declaration in the header, which is not among the sources; by the
      spec the flag is set once the instance count crosses the threshold, hence starts
      unset. The slot has been connected to the material's release signal.\<close>
  "BatchedModelEntry_connected mat =
     \<lparr>materialReleaseSlot = Some mat, meshMap = Map.empty, enabled = False,
      instancingEnabled = False\<rparr>"

definition MeshInstanceEntry_connected :: "('b, 'm) Env \<Rightarrow> MeshData \<Rightarrow> 'b \<Rightarrow> 'm MeshInstanceEntry" where
  \<comment> \<open>The index buffer slot is connected only when the mesh has an index buffer.\<close>
  "MeshInstanceEntry_connected env data meshAABB =
     \<lparr>indexBufferReleaseSlot = indexBuffer data,
      vertexBufferReleaseSlot = Some (vertexBuffer data),
      instances = [],
      mesh_squaredBoundingSphere = GetSquaredBoundingSphere env meshAABB\<rparr>"

definition AddMesh ::
  "('b, 'm) Env \<Rightarrow> int \<Rightarrow> Material \<Rightarrow> MeshData \<Rightarrow> 'b \<Rightarrow> 'm \<Rightarrow>
   'm ForwardRenderQueue \<Rightarrow> 'm ForwardRenderQueue" where
  "AddMesh env renderOrder mat data meshAABB matrix q =
     (if IsEnabled_Blend env mat then
        let (currentLayer, q1) = GetLayer renderOrder q;
            index = length (transparentModelData currentLayer);
            tdata = \<lparr>material = mat, meshData = data,
                     squaredBoundingSphere =
                       \<lparr>sphere_center = Vector3f_add (GetTranslation env matrix) (GetCenter env meshAABB),
                        radius = GetSquaredRadius env meshAABB\<rparr>,
                     transformMatrix = matrix\<rparr>
        in q1\<lparr>layers := (layers q1)(renderOrder \<mapsto>
                currentLayer\<lparr>transparentModelData := transparentModelData currentLayer @ [tdata],
                              transparentModels := transparentModels currentLayer @ [index]\<rparr>)\<rparr>
      else
        let (currentLayer, q1) = GetLayer renderOrder q;
            entry = (case opaqueModels currentLayer mat of
                       None \<Rightarrow> BatchedModelEntry_connected mat
                     | Some e \<Rightarrow> e)\<lparr>enabled := True\<rparr>;
            (key, instanceEntry) =
                    (case meshMap entry (MeshData_key env data) of
                       None \<Rightarrow> (data, MeshInstanceEntry_connected env data meshAABB)
                     | Some p \<Rightarrow> p);
            instanceEntry' = instanceEntry\<lparr>instances := instances instanceEntry @ [matrix]\<rparr>;
            entry' = entry\<lparr>meshMap := (meshMap entry)(MeshData_key env data \<mapsto> (key, instanceEntry')),
                           instancingEnabled :=
                             (if length (instances instanceEntry') \<ge> INSTANCING_MIN_INSTANCES_COUNT env
                              then True else instancingEnabled entry)\<rparr>
        in q1\<lparr>layers := (layers q1)(renderOrder \<mapsto>
                currentLayer\<lparr>opaqueModels := (opaqueModels currentLayer)(mat \<mapsto> entry')\<rparr>)\<rparr>)"

definition BatchedBasicSpriteEntry_connected :: "Material \<Rightarrow> BatchedBasicSpriteEntry" where
  \<comment> \<open>Modelled from the spec: the default value of \<^verbatim>\<open>enabled\<close> is given by the header,
      which is not among the sources; \<^verbatim>\<open>AddSprites\<close> sets it in any case.\<close>
  "BatchedBasicSpriteEntry_connected mat =
     \<lparr>sprite_materialReleaseSlot = Some mat, overlayMap = Map.empty, sprite_enabled = False\<rparr>"

definition AddSprites ::
  "int \<Rightarrow> Material \<Rightarrow> nat \<Rightarrow> nat \<Rightarrow> Texture option \<Rightarrow>
   'm ForwardRenderQueue \<Rightarrow> 'm ForwardRenderQueue" where
  "AddSprites renderOrder mat verts sprites overlay q =
     (let (currentLayer, q1) = GetLayer renderOrder q;
          entry = (case basicSprites currentLayer mat of
                     None \<Rightarrow> BatchedBasicSpriteEntry_connected mat
                   | Some e \<Rightarrow> e)\<lparr>sprite_enabled := True\<rparr>;
          overlayEntry = (case overlayMap entry overlay of
                            None \<Rightarrow> \<lparr>textureReleaseSlot = overlay, spriteChains = []\<rparr>
                          | Some e \<Rightarrow> e);
          overlayEntry' = overlayEntry\<lparr>spriteChains := spriteChains overlayEntry
                             @ [\<lparr>vertices = verts, spriteCount = sprites\<rparr>]\<rparr>;
          entry' = entry\<lparr>overlayMap := (overlayMap entry)(overlay \<mapsto> overlayEntry')\<rparr>
      in q1\<lparr>layers := (layers q1)(renderOrder \<mapsto>
              currentLayer\<lparr>basicSprites := (basicSprites currentLayer)(mat \<mapsto> entry')\<rparr>)\<rparr>)"

subsection \<open>Clearing and sorting\<close>

definition Clear :: "bool \<Rightarrow> 'm ForwardRenderQueue \<Rightarrow> 'm ForwardRenderQueue" where
  \<comment> \<open>\<^verbatim>\<open>layer.clearCount++ >= 100\<close> compares the value before the increment.\<close>
  "Clear fully q =
     (if fully then q\<lparr>layers := Map.empty\<rparr>
      else q\<lparr>layers := (\<lambda>k. case layers q k of
                None \<Rightarrow> None
              | Some layer \<Rightarrow>
                  if clearCount layer \<ge> 100 then None
                  else Some (layer\<lparr>clearCount := clearCount layer + 1,
                                   otherDrawables := [],
                                   transparentModels := [],
                                   transparentModelData := []\<rparr>))\<rparr>)"

definition Sort_layer :: "('b, 'm) Env \<Rightarrow> Viewer \<Rightarrow> 'm Layer \<Rightarrow> 'm Layer" where
  \<comment> \<open>The body of the loop over the layers; \<open>nearPlane\<close>, \<open>viewerPos\<close> and
      \<open>viewerNormal\<close> are read from the viewer.\<close>
  "Sort_layer env viewer layer =
     (let nearPlane = GetFrustumNearPlane viewer;
          viewerPos = GetEyePosition viewer;
          viewerNormal = GetForward viewer
      in layer\<lparr>transparentModels :=
             std_sort (\<lambda>index1 index2.
                 Distance env nearPlane
                   (GetNegativeVertex env
                      (squaredBoundingSphere (transparentModelData layer ! index1)) viewerNormal)
                 > Distance env nearPlane
                     (GetNegativeVertex env
                        (squaredBoundingSphere (transparentModelData layer ! index2)) viewerNormal))
               (transparentModels layer),
           billboards := (\<lambda>mat. case billboards layer mat of
               None \<Rightarrow> None
             | Some entry \<Rightarrow>
                 if IsDepthSortingEnabled env mat
                 then Some (entry\<lparr>entry_billboards :=
                        std_sort (\<lambda>data1 data2.
                            SquaredDistance env viewerPos (center data1)
                            > SquaredDistance env viewerPos (center data2))
                          (entry_billboards entry)\<rparr>)
                 else Some entry)\<rparr>)"

definition Sort :: "('b, 'm) Env \<Rightarrow> Viewer \<Rightarrow> 'm ForwardRenderQueue \<Rightarrow> 'm ForwardRenderQueue" where
  "Sort env viewer q = q\<lparr>layers := (\<lambda>k. map_option (Sort_layer env viewer) (layers q k))\<rparr>"

subsection \<open>Release notifications\<close>

definition OnIndexBufferInvalidation :: "IndexBuffer \<Rightarrow> 'm ForwardRenderQueue \<Rightarrow> 'm ForwardRenderQueue" where
  "OnIndexBufferInvalidation ib q =
     q\<lparr>layers := (\<lambda>k. map_option (\<lambda>layer.
         layer\<lparr>opaqueModels := (\<lambda>mat. map_option (\<lambda>entry.
           entry\<lparr>meshMap := (\<lambda>key. case meshMap entry key of
               None \<Rightarrow> None
             | Some (renderData, instanceEntry) \<Rightarrow>
                 if indexBuffer renderData = Some ib then None
                 else Some (renderData, instanceEntry))\<rparr>) (opaqueModels layer mat))\<rparr>)
         (layers q k))\<rparr>"

definition OnMaterialInvalidation :: "Material \<Rightarrow> 'm ForwardRenderQueue \<Rightarrow> 'm ForwardRenderQueue" where
  "OnMaterialInvalidation mat q =
     q\<lparr>layers := (\<lambda>k. map_option (\<lambda>layer.
         layer\<lparr>basicSprites := (basicSprites layer)(mat := None),
               billboards := (billboards layer)(mat := None),
               opaqueModels := (opaqueModels layer)(mat := None)\<rparr>)
         (layers q k))\<rparr>"

definition OnTextureInvalidation :: "Texture option \<Rightarrow> 'm ForwardRenderQueue \<Rightarrow> 'm ForwardRenderQueue" where
  "OnTextureInvalidation texture q =
     q\<lparr>layers := (\<lambda>k. map_option (\<lambda>layer.
         layer\<lparr>basicSprites := (\<lambda>mat. map_option (\<lambda>entry.
           entry\<lparr>overlayMap := (overlayMap entry)(texture := None)\<rparr>) (basicSprites layer mat))\<rparr>)
         (layers q k))\<rparr>"

definition OnVertexBufferInvalidation :: "VertexBuffer \<Rightarrow> 'm ForwardRenderQueue \<Rightarrow> 'm ForwardRenderQueue" where
  "OnVertexBufferInvalidation vb q =
     q\<lparr>layers := (\<lambda>k. map_option (\<lambda>layer.
         layer\<lparr>opaqueModels := (\<lambda>mat. map_option (\<lambda>entry.
           entry\<lparr>meshMap := (\<lambda>key. case meshMap entry key of
               None \<Rightarrow> None
             | Some (renderData, instanceEntry) \<Rightarrow>
                 if vertexBuffer renderData = vb then None
                 else Some (renderData, instanceEntry))\<rparr>) (opaqueModels layer mat))\<rparr>)
         (layers q k))\<rparr>"

subsection \<open>Calls\<close>

text \<open>
  The operations through which the queue is changed: the public interface, and the four
  notifications its slots are connected to.
\<close>

datatype ('b, 'm) Call =
    Call_AddBillboard int Material Vector3f Vector2f Vector2f Color
  | Call_AddBillboards int Material nat "nat \<Rightarrow> Vector3f" SizePtr RotationPtr ColorPtr
  | Call_AddDrawable int "Drawable option"
  | Call_AddMesh int Material MeshData 'b 'm
  | Call_AddSprites int Material nat nat "Texture option"
  | Call_Clear bool
  | Call_Sort Viewer
  | Call_OnIndexBufferInvalidation IndexBuffer
  | Call_OnMaterialInvalidation Material
  | Call_OnTextureInvalidation "Texture option"
  | Call_OnVertexBufferInvalidation VertexBuffer

fun perform ::
  "('b, 'm) Env \<Rightarrow> ('b, 'm) Call \<Rightarrow> 'm ForwardRenderQueue \<Rightarrow> error + 'm ForwardRenderQueue" where
  "perform env (Call_AddBillboard ro mat position sz sc col) q =
     Inr (AddBillboard ro mat position sz sc col q)"
| "perform env (Call_AddBillboards ro mat cnt positionPtr sizePtr rotationPtr colorPtr) q =
     AddBillboards ro mat cnt positionPtr sizePtr rotationPtr colorPtr q"
| "perform env (Call_AddDrawable ro drawable) q = Inr (AddDrawable env ro drawable q)"
| "perform env (Call_AddMesh ro mat data meshAABB matrix) q =
     Inr (AddMesh env ro mat data meshAABB matrix q)"
| "perform env (Call_AddSprites ro mat verts sprites overlay) q =
     Inr (AddSprites ro mat verts sprites overlay q)"
| "perform env (Call_Clear fully) q = Inr (Clear fully q)"
| "perform env (Call_Sort viewer) q = Inr (Sort env viewer q)"
| "perform env (Call_OnIndexBufferInvalidation ib) q = Inr (OnIndexBufferInvalidation ib q)"
| "perform env (Call_OnMaterialInvalidation mat) q = Inr (OnMaterialInvalidation mat q)"
| "perform env (Call_OnTextureInvalidation texture) q = Inr (OnTextureInvalidation texture q)"
| "perform env (Call_OnVertexBufferInvalidation vb) q = Inr (OnVertexBufferInvalidation vb q)"

fun perform_all ::
  "('b, 'm) Env \<Rightarrow> ('b, 'm) Call list \<Rightarrow> 'm ForwardRenderQueue \<Rightarrow>
   error + 'm ForwardRenderQueue" where
  "perform_all env [] q = Inr q"
| "perform_all env (call # calls) q =
     (case perform env call q of Inl e \<Rightarrow> Inl e | Inr q' \<Rightarrow> perform_all env calls q')"

subsection \<open>Reading the queue\<close>

definition empty_queue :: "'m ForwardRenderQueue" where
  \<comment> \<open>The queue as constructed, and as \<^verbatim>\<open>Clear(true)\<close> leaves it.\<close>
  "empty_queue = \<lparr>layers = Map.empty\<rparr>"

definition layer_at :: "'m ForwardRenderQueue \<Rightarrow> int \<Rightarrow> 'm Layer" where
  \<comment> \<open>The layer an operation finds under a key: the stored one, or a new one.\<close>
  "layer_at q k = (case layers q k of None \<Rightarrow> Layer_new | Some l \<Rightarrow> l)"

definition billboards_at :: "'m ForwardRenderQueue \<Rightarrow> int \<Rightarrow> Material \<Rightarrow> BillboardData list" where
  \<comment> \<open>The billboards batched for a material in a layer, none if there is no batch.\<close>
  "billboards_at q k mat =
     (case layers q k of None \<Rightarrow> [] | Some l \<Rightarrow>
        (case billboards l mat of None \<Rightarrow> [] | Some e \<Rightarrow> entry_billboards e))"

definition billboards_added ::
  "int \<Rightarrow> Material \<Rightarrow> BillboardData list \<Rightarrow> 'm ForwardRenderQueue \<Rightarrow> 'm ForwardRenderQueue" where
  \<comment> \<open>The queue in which the billboards \<open>new\<close> have been appended to the batch of a
      material in a layer, the layer and the batch being created when they are missing.\<close>
  "billboards_added ro mat new q =
     q\<lparr>layers := (layers q)(ro \<mapsto> (layer_at q ro)\<lparr>clearCount := 0,
        billboards := (billboards (layer_at q ro))(mat \<mapsto>
          (case billboards (layer_at q ro) mat of
             None \<Rightarrow> BatchedBillboardEntry_connected mat | Some e \<Rightarrow> e)
          \<lparr>entry_billboards := billboards_at q ro mat @ new\<rparr>)\<rparr>)\<rparr>"

definition result_billboards_at ::
  "error + 'm ForwardRenderQueue \<Rightarrow> int \<Rightarrow> Material \<Rightarrow> BillboardData list option" where
  \<comment> \<open>The billboards of a batch in the queue an operation has returned, if it has.\<close>
  "result_billboards_at r k mat =
     (case r of Inl e \<Rightarrow> None | Inr q \<Rightarrow> Some (billboards_at q k mat))"

definition comparator_distance :: "('b, 'm) Env \<Rightarrow> Viewer \<Rightarrow> 'm Layer \<Rightarrow> nat \<Rightarrow> real" where
  \<comment> \<open>What the comparator of \<^verbatim>\<open>Sort\<close> computes for an index of the transparent list:
      \<^verbatim>\<open>nearPlane.Distance(sphere.GetNegativeVertex(viewerNormal))\<close> for the sphere stored
      with the entry, whose radius field holds the squared radius.\<close>
  "comparator_distance env viewer layer index =
     Distance env (GetFrustumNearPlane viewer)
       (GetNegativeVertex env (squaredBoundingSphere (transparentModelData layer ! index))
          (GetForward viewer))"

definition bounding_sphere_distance :: "('b, 'm) Env \<Rightarrow> Viewer \<Rightarrow> 'm Layer \<Rightarrow> nat \<Rightarrow> real" where
  \<comment> \<open>The key of the spec: the distance from the near plane to the negative vertex of the
      bounding sphere of the entry. The bounding sphere has the stored centre, and as radius
      the square root of the stored squared radius.\<close>
  "bounding_sphere_distance env viewer layer index =
     Distance env (GetFrustumNearPlane viewer)
       (GetNegativeVertex env
          ((squaredBoundingSphere (transparentModelData layer ! index))
             \<lparr>radius := sqrt (radius (squaredBoundingSphere (transparentModelData layer ! index)))\<rparr>)
          (GetForward viewer))"

subsection \<open>An instance of the collaborators\<close>

text \<open>
  Used to evaluate the operations on concrete input. A box is its position and its
  lengths, a matrix is its translation; material 2 is alpha blended, material 3 asks for
  depth sorting; instancing starts at ten instances. The negative vertex of a sphere for
  a direction is its centre moved against the direction by the radius, and the distance
  of a point to a plane is the value of the plane equation at the point.
\<close>

definition test_env :: "(Vector3f \<times> Vector3f, Vector3f) Env" where
  "test_env = \<lparr>
     INSTANCING_MIN_INSTANCES_COUNT = 10,
     GRAPHICS_SAFE = True,
     IsEnabled_Blend = (\<lambda>mat. mat = 2),
     IsDepthSortingEnabled = (\<lambda>mat. mat = 3),
     GetShader = (\<lambda>mat. 0),
     GetShaderInstance = (\<lambda>mat flags. 0),
     GetDiffuseMap = (\<lambda>mat. 0),
     IndexBuffer_GetBuffer = (\<lambda>ib. ib),
     VertexBuffer_GetBuffer = (\<lambda>vb. vb),
     GetTranslation = (\<lambda>matrix. matrix),
     GetCenter = (\<lambda>box. case box of ((x, y, z), (w, h, d)) \<Rightarrow> (x + w / 2, y + h / 2, z + d / 2)),
     GetSquaredRadius = (\<lambda>box. case box of (p, (w, h, d)) \<Rightarrow> (w / 2)\<^sup>2 + (h / 2)\<^sup>2 + (d / 2)\<^sup>2),
     GetSquaredBoundingSphere = (\<lambda>box. case box of ((x, y, z), (w, h, d)) \<Rightarrow>
        \<lparr>sphere_center = (x + w / 2, y + h / 2, z + d / 2),
         radius = (w / 2)\<^sup>2 + (h / 2)\<^sup>2 + (d / 2)\<^sup>2\<rparr>),
     GetNegativeVertex = (\<lambda>sphere n. case sphere_center sphere of (cx, cy, cz) \<Rightarrow>
        case n of (nx, ny, nz) \<Rightarrow>
          (cx - nx * radius sphere, cy - ny * radius sphere, cz - nz * radius sphere)),
     Distance = (\<lambda>plane p. case normal plane of (nx, ny, nz) \<Rightarrow>
        case p of (px, py, pz) \<Rightarrow> nx * px + ny * py + nz * pz - distance plane),
     SquaredDistance = (\<lambda>u v. case u of (ux, uy, uz) \<Rightarrow>
        case v of (vx, vy, vz) \<Rightarrow> (ux - vx)\<^sup>2 + (uy - vy)\<^sup>2 + (uz - vz)\<^sup>2)\<rparr>"

definition test_mesh :: MeshData where
  "test_mesh = \<lparr>primitiveMode = 4, indexBuffer = None, vertexBuffer = 5\<rparr>"

definition test_mesh_b :: MeshData where
  "test_mesh_b = \<lparr>primitiveMode = 4, indexBuffer = None, vertexBuffer = 6\<rparr>"

definition test_viewer :: Viewer where
  \<comment> \<open>At the origin, looking along the third axis; the near plane passes through the origin.\<close>
  "test_viewer = \<lparr>GetFrustumNearPlane = \<lparr>normal = (0, 0, 1), distance = 0\<rparr>,
                   GetEyePosition = (0, 0, 0), GetForward = (0, 0, 1)\<rparr>"

subsection \<open>Opaque batches\<close>

definition opaque_entry_at :: "'m ForwardRenderQueue \<Rightarrow> int \<Rightarrow> Material \<Rightarrow> 'm BatchedModelEntry option" where
  \<comment> \<open>The opaque batch of a material in a layer, if both exist.\<close>
  "opaque_entry_at q k mat = (case layers q k of None \<Rightarrow> None | Some l \<Rightarrow> opaqueModels l mat)"

definition instancing_flag_at :: "'m ForwardRenderQueue \<Rightarrow> int \<Rightarrow> Material \<Rightarrow> bool option" where
  \<comment> \<open>The flag \<^verbatim>\<open>instancingEnabled\<close> of that batch; \<open>None\<close> when there is no batch.\<close>
  "instancing_flag_at q k mat = map_option instancingEnabled (opaque_entry_at q k mat)"

definition instance_count_at ::
  "('b, 'm) Env \<Rightarrow> 'm ForwardRenderQueue \<Rightarrow> int \<Rightarrow> Material \<Rightarrow> MeshData \<Rightarrow> nat option" where
  \<comment> \<open>The number of instances accumulated for a mesh in that batch.\<close>
  "instance_count_at env q k mat data =
     (case opaque_entry_at q k mat of
        None \<Rightarrow> None
      | Some entry \<Rightarrow>
          (case meshMap entry (MeshData_key env data) of
             None \<Rightarrow> None
           | Some (key, instanceEntry) \<Rightarrow> Some (length (instances instanceEntry))))"

definition AddMesh_calls ::
  "('b, 'm) Env \<Rightarrow> (int \<times> Material \<times> MeshData \<times> 'b \<times> 'm) list \<Rightarrow>
   'm ForwardRenderQueue \<Rightarrow> 'm ForwardRenderQueue" where
  \<comment> \<open>A sequence of \<^verbatim>\<open>AddMesh\<close> calls, given by their arguments.\<close>
  "AddMesh_calls env calls q =
     fold (\<lambda>(ro, mat, data, meshAABB, matrix). AddMesh env ro mat data meshAABB matrix) calls q"

definition opaque_entry_after ::
  "('b, 'm) Env \<Rightarrow> Material \<Rightarrow> MeshData \<Rightarrow> 'b \<Rightarrow> 'm \<Rightarrow> 'm BatchedModelEntry option \<Rightarrow>
   'm BatchedModelEntry" where
  \<comment> \<open>The batch that the opaque branch of \<^verbatim>\<open>AddMesh\<close> leaves for the material, from the
      batch it found.\<close>
  "opaque_entry_after env mat data meshAABB matrix old =
     (let entry = (case old of None \<Rightarrow> BatchedModelEntry_connected mat | Some e \<Rightarrow> e)\<lparr>enabled := True\<rparr>;
          (key, instanceEntry) =
                    (case meshMap entry (MeshData_key env data) of
                       None \<Rightarrow> (data, MeshInstanceEntry_connected env data meshAABB)
                     | Some p \<Rightarrow> p);
          instanceEntry' = instanceEntry\<lparr>instances := instances instanceEntry @ [matrix]\<rparr>
      in entry\<lparr>meshMap := (meshMap entry)(MeshData_key env data \<mapsto> (key, instanceEntry')),
               instancingEnabled :=
                 (if length (instances instanceEntry') \<ge> INSTANCING_MIN_INSTANCES_COUNT env
                  then True else instancingEnabled entry)\<rparr>)"

definition flag_matches :: "('b, 'm) Env \<Rightarrow> 'm BatchedModelEntry \<Rightarrow> bool" where
  \<comment> \<open>The flag of a batch is set exactly when one of its meshes has enough instances.\<close>
  "flag_matches env entry \<longleftrightarrow>
     (instancingEnabled entry \<longleftrightarrow>
        (\<exists>key data instanceEntry. meshMap entry key = Some (data, instanceEntry)
           \<and> INSTANCING_MIN_INSTANCES_COUNT env \<le> length (instances instanceEntry)))"

definition flags_match :: "('b, 'm) Env \<Rightarrow> 'm ForwardRenderQueue \<Rightarrow> bool" where
  "flags_match env q \<longleftrightarrow>
     (\<forall>k layer mat entry. layers q k = Some layer \<longrightarrow> opaqueModels layer mat = Some entry
        \<longrightarrow> flag_matches env entry)"

definition test_calls :: "(int \<times> Material \<times> MeshData \<times> (Vector3f \<times> Vector3f) \<times> Vector3f) list" where
  \<comment> \<open>Ten instances of one mesh and one instance of another, same layer and material.\<close>
  "test_calls = replicate 10 (0, 1, test_mesh, ((0, 0, 0), (2, 4, 6)), (0, 0, 0))
                  @ [(0, 1, test_mesh_b, ((0, 0, 0), (2, 4, 6)), (0, 0, 0))]"

subsection \<open>Indices of the transparent list\<close>

definition layer_valid :: "'m Layer \<Rightarrow> bool" where
  \<comment> \<open>Every index of \<^verbatim>\<open>transparentModels\<close> is a position of \<^verbatim>\<open>transparentModelData\<close>.\<close>
  "layer_valid layer \<longleftrightarrow>
     (\<forall>i\<in>set (transparentModels layer). i < length (transparentModelData layer))"

definition indices_valid :: "'m ForwardRenderQueue \<Rightarrow> bool" where
  "indices_valid q \<longleftrightarrow> (\<forall>k layer. layers q k = Some layer \<longrightarrow> layer_valid layer)"

subsection \<open>Queues for evaluation\<close>

definition test_spheres :: "Vector3f ForwardRenderQueue" where
  \<comment> \<open>Two alpha blended meshes in layer 0, in front of \<open>test_viewer\<close>. The first has
      its centre at depth 10 and a box of half lengths (2, 2, 1): squared radius 9, radius
      3, so its bounding sphere spans the depths 7 to 13. The second has its centre at depth
      5 and a box of half lengths (2/3, 2/3, 1/3): squared radius and radius 1, so its
      bounding sphere spans the depths 4 to 6, wholly nearer than the first.\<close>
  "test_spheres =
     AddMesh test_env 0 2 test_mesh ((- 2 / 3, - 2 / 3, - 1 / 3), (4 / 3, 4 / 3, 2 / 3)) (0, 0, 5)
       (AddMesh test_env 0 2 test_mesh ((- 2, - 2, - 1), (4, 4, 2)) (0, 0, 10) empty_queue)"

definition test_billboards :: "Vector3f ForwardRenderQueue" where
  \<comment> \<open>In layer 0, three billboards of material 3 at the depths 1, 3 and 2, then two of
      material 4 at the depths 1 and 2.\<close>
  "test_billboards =
     AddBillboard 0 4 (0, 0, 2) (1, 1) (0, 1) Color_White
       (AddBillboard 0 4 (0, 0, 1) (1, 1) (0, 1) Color_White
          (AddBillboard 0 3 (0, 0, 2) (1, 1) (0, 1) Color_White
             (AddBillboard 0 3 (0, 0, 3) (1, 1) (0, 1) Color_White
                (AddBillboard 0 3 (0, 0, 1) (1, 1) (0, 1) Color_White empty_queue))))"

definition test_materials :: "Vector3f ForwardRenderQueue" where
  \<comment> \<open>In layer 0: an opaque mesh, a sprite chain and a billboard of material 1, then a
      billboard and a mesh of the alpha blended material 2.\<close>
  "test_materials =
     AddMesh test_env 0 2 test_mesh ((0, 0, 0), (2, 4, 6)) (10, 20, 30)
       (AddBillboard 0 2 (0, 0, 2) (1, 1) (0, 1) Color_White
          (AddBillboard 0 1 (0, 0, 1) (1, 1) (0, 1) Color_White
             (AddSprites 0 1 100 1 None
                (AddMesh test_env 0 1 test_mesh ((0, 0, 0), (2, 4, 6)) (0, 0, 0) empty_queue))))"

definition test_sprites :: "Vector3f ForwardRenderQueue" where
  \<comment> \<open>Two sprite chains of material 5 in layer 0, with the overlays 1 and 2.\<close>
  "test_sprites = AddSprites 0 5 200 3 (Some 2) (AddSprites 0 5 100 1 (Some 1) empty_queue)"

section \<open>Properties\<close>

subsection \<open>The comparators\<close>

text \<open>
  Two materials are equivalent for a material comparator exactly when they are the same
  pointer, and two meshes are equivalent for the mesh comparator exactly when they have the
  same key: this is what indexing the maps by material and by mesh key relies on.
\<close>

lemma BatchedBillboardComparator_equiv:
  "\<not> BatchedBillboardComparator env mat1 mat2 \<and> \<not> BatchedBillboardComparator env mat2 mat1
   \<longleftrightarrow> mat1 = mat2"
  by (auto simp: BatchedBillboardComparator_def)

lemma BatchedModelMaterialComparator_equiv:
  "\<not> BatchedModelMaterialComparator env mat1 mat2 \<and> \<not> BatchedModelMaterialComparator env mat2 mat1
   \<longleftrightarrow> mat1 = mat2"
  by (auto simp: BatchedModelMaterialComparator_def)

lemma BatchedSpriteMaterialComparator_equiv:
  "\<not> BatchedSpriteMaterialComparator env mat1 mat2 \<and> \<not> BatchedSpriteMaterialComparator env mat2 mat1
   \<longleftrightarrow> mat1 = mat2"
  by (auto simp: BatchedSpriteMaterialComparator_def)

lemma MeshDataComparator_equiv:
  "\<not> MeshDataComparator env data1 data2 \<and> \<not> MeshDataComparator env data2 data1
   \<longleftrightarrow> MeshData_key env data1 = MeshData_key env data2"
  by (auto simp: MeshDataComparator_def MeshData_key_def Let_def)

subsection \<open>Filling the billboard vector\<close>

lemma fold_update_length:
  "length (fold (\<lambda>i v. v[p + i := f i]) ns ys) = length ys"
  by (induction ns arbitrary: ys) auto

lemma fold_update_append:
  "\<forall>i\<in>set ns. p + i < length ys \<Longrightarrow>
   fold (\<lambda>i v. v[p + i := f i]) ns (ys @ zs) = fold (\<lambda>i v. v[p + i := f i]) ns ys @ zs"
  by (induction ns arbitrary: ys) (auto simp: list_update_append1)

lemma fold_update_fill:
  "fold (\<lambda>i v. v[length xs + i := f i]) [0..<n] (xs @ replicate n d) = xs @ map f [0..<n]"
proof (induction n)
  case 0
  then show ?case by simp
next
  case (Suc n)
  have "xs @ replicate (Suc n) d = (xs @ replicate n d) @ [d]"
    by (simp add: replicate_append_same)
  then have "fold (\<lambda>i v. v[length xs + i := f i]) [0..<n] (xs @ replicate (Suc n) d)
        = fold (\<lambda>i v. v[length xs + i := f i]) [0..<n] (xs @ replicate n d) @ [d]"
    using fold_update_append [of "[0..<n]" "length xs" "xs @ replicate n d" f "[d]"] by simp
  then show ?case using Suc by (simp add: nth_append list_update_append)
qed

subsection \<open>The layers after an operation\<close>

lemma billboards_added_layers:
  "layers (billboards_added ro mat new q) k =
     (if k = ro
      then Some ((layer_at q ro)\<lparr>clearCount := 0,
        billboards := (billboards (layer_at q ro))(mat \<mapsto>
          (case billboards (layer_at q ro) mat of
             None \<Rightarrow> BatchedBillboardEntry_connected mat | Some e \<Rightarrow> e)
          \<lparr>entry_billboards := billboards_at q ro mat @ new\<rparr>)\<rparr>)
      else layers q k)"
  by (simp add: billboards_added_def)

lemma AddBillboard_eq:
  "AddBillboard ro mat position sz sc col q =
     billboards_added ro mat [\<lparr>color = col, center = position, size_bd = sz, sinCos = sc\<rparr>] q"
  by (auto simp: AddBillboard_def billboards_added_def GetLayer_def layer_at_def billboards_at_def
      Layer_new_def BatchedBillboardEntry_connected_def Let_def fun_eq_iff
      split: option.splits)

lemma AddBillboards_zero:
  "AddBillboards ro mat 0 positionPtr sizePtr rotationPtr colorPtr q = Inl OutOfRangeSubscript"
  by (simp add: AddBillboards_def GetBillboardData_def GetLayer_def Let_def)

lemma AddBillboards_positive:
  "0 < cnt \<Longrightarrow>
   AddBillboards ro mat cnt positionPtr sizePtr rotationPtr colorPtr q =
     Inr (billboards_added ro mat
            (map (billboard_of positionPtr sizePtr rotationPtr colorPtr) [0..<cnt]) q)"
  by (auto simp: AddBillboards_def GetBillboardData_def billboards_added_def GetLayer_def
      layer_at_def billboards_at_def Layer_new_def BatchedBillboardEntry_connected_def
      fold_update_fill Let_def fun_eq_iff split: option.splits)

lemma AddBillboards_eq:
  "AddBillboards ro mat cnt positionPtr sizePtr rotationPtr colorPtr q =
     (if cnt = 0 then Inl OutOfRangeSubscript
      else Inr (billboards_added ro mat
                  (map (billboard_of positionPtr sizePtr rotationPtr colorPtr) [0..<cnt]) q))"
  by (simp add: AddBillboards_zero AddBillboards_positive)

lemma AddMesh_blend_layer:
  "IsEnabled_Blend env mat \<Longrightarrow>
   layers (AddMesh env ro mat data meshAABB matrix q) ro =
     Some ((layer_at q ro)\<lparr>clearCount := 0,
        transparentModelData := transparentModelData (layer_at q ro) @
          [\<lparr>material = mat, meshData = data,
            squaredBoundingSphere =
              \<lparr>sphere_center = Vector3f_add (GetTranslation env matrix) (GetCenter env meshAABB),
               radius = GetSquaredRadius env meshAABB\<rparr>,
            transformMatrix = matrix\<rparr>],
        transparentModels := transparentModels (layer_at q ro)
          @ [length (transparentModelData (layer_at q ro))]\<rparr>)"
  by (simp add: AddMesh_def GetLayer_def layer_at_def Let_def split: option.splits)

lemma AddMesh_other:
  "k \<noteq> ro \<Longrightarrow> layers (AddMesh env ro mat data meshAABB matrix q) k = layers q k"
  by (simp add: AddMesh_def GetLayer_def Let_def split: prod.splits)

lemma OnMaterialInvalidation_layer:
  "layers (OnMaterialInvalidation mat q) k = Some layer' \<longleftrightarrow>
     (\<exists>layer. layers q k = Some layer \<and>
        layer' = layer\<lparr>basicSprites := (basicSprites layer)(mat := None),
                       billboards := (billboards layer)(mat := None),
                       opaqueModels := (opaqueModels layer)(mat := None)\<rparr>)"
  by (auto simp: OnMaterialInvalidation_def)

subsection \<open>Sorting\<close>

lemma mset_std_insert: "mset (std_insert before x ys) = add_mset x (mset ys)"
  by (induction ys) auto

lemma mset_std_sort: "mset (std_sort before xs) = mset xs"
  by (induction xs) (auto simp: std_sort_def mset_std_insert)

lemma set_std_insert: "set (std_insert before x ys) = insert x (set ys)"
  by (induction ys) auto

lemma sorted_std_insert:
  fixes f :: "'a \<Rightarrow> real"
  assumes "sorted_wrt (\<lambda>a b. f a \<ge> f b) ys"
  shows "sorted_wrt (\<lambda>a b. f a \<ge> f b) (std_insert (\<lambda>a b. f a > f b) x ys)"
  using assms by (induction ys) (auto simp: set_std_insert)

lemma sorted_std_sort:
  fixes f :: "'a \<Rightarrow> real"
  shows "sorted_wrt (\<lambda>a b. f a \<ge> f b) (std_sort (\<lambda>a b. f a > f b) xs)"
proof (induction xs)
  case Nil
  then show ?case by (simp add: std_sort_def)
next
  case (Cons x xs)
  then show ?case
    using sorted_std_insert [of f "std_sort (\<lambda>a b. f a > f b) xs" x]
    by (simp add: std_sort_def)
qed

lemma set_std_sort: "set (std_sort before xs) = set xs"
  using mset_std_sort [of before xs] by (metis set_mset_mset)

lemma Sort_layer_eq:
  "layers (Sort env viewer q) k = map_option (Sort_layer env viewer) (layers q k)"
  by (simp add: Sort_def)

lemma Sort_layer_transparentModels:
  "transparentModels (Sort_layer env viewer layer) =
     std_sort (\<lambda>index1 index2. comparator_distance env viewer layer index1
                                > comparator_distance env viewer layer index2)
       (transparentModels layer)"
  by (simp add: Sort_layer_def comparator_distance_def Let_def)

lemma Sort_layer_transparentModelData:
  "transparentModelData (Sort_layer env viewer layer) = transparentModelData layer"
  by (simp add: Sort_layer_def Let_def)

text \<open>
  What \<^verbatim>\<open>Sort\<close> does to the transparent list of a layer: it orders the indices by the
  descending value the comparator computes, from the stored sphere.
\<close>

lemma Sort_layer_by_comparator_distance:
  "sorted_wrt (\<lambda>i j. comparator_distance env viewer layer i \<ge> comparator_distance env viewer layer j)
     (transparentModels (Sort_layer env viewer layer))"
  unfolding Sort_layer_transparentModels by (rule sorted_std_sort)

lemma Sort_layer_billboards:
  "billboards (Sort_layer env viewer layer) mat =
     (case billboards layer mat of
        None \<Rightarrow> None
      | Some entry \<Rightarrow>
          if IsDepthSortingEnabled env mat
          then Some (entry\<lparr>entry_billboards :=
                 std_sort (\<lambda>data1 data2.
                     SquaredDistance env (GetEyePosition viewer) (center data1)
                     > SquaredDistance env (GetEyePosition viewer) (center data2))
                   (entry_billboards entry)\<rparr>)
          else Some entry)"
  by (simp add: Sort_layer_def Let_def)

subsection \<open>Billboard entries\<close>

lemma billboard_of_SinCos_null:
  "sinCos (billboard_of positionPtr sizePtr (SinCosPtr None) colorPtr i) = (0, 1)"
  by (simp add: billboard_of_def SparsePtr_read_def)

lemma billboard_of_Angle_null:
  "sinCos (billboard_of positionPtr sizePtr (AnglePtr None) colorPtr i) = (0, 1)"
  by (simp add: billboard_of_def SparsePtr_read_def ToRadians_def)

lemma billboard_of_Color_null:
  "color (billboard_of positionPtr sizePtr rotationPtr (ColorPtr None) i) = Color_White"
  by (simp add: billboard_of_def SparsePtr_read_def)

lemma billboard_of_Alpha_null:
  "color (billboard_of positionPtr sizePtr rotationPtr (AlphaPtr None) i) = Color_White"
  by (simp add: billboard_of_def SparsePtr_read_def UInt8_of_float_def Color_White_def)

lemma uint_UInt8_of_float:
  assumes "0 \<le> x" and "x < 256"
  shows "uint (UInt8_of_float x) = \<lfloor>x\<rfloor>"
proof -
  have "0 \<le> \<lfloor>x\<rfloor>" using assms by simp
  moreover have "\<lfloor>x\<rfloor> < 256" using assms by (simp add: floor_less_iff)
  ultimately show ?thesis
    using assms by (simp add: UInt8_of_float_def uint_word_of_int take_bit_eq_mod)
qed

lemma billboard_of_Alpha:
  "color (billboard_of positionPtr sizePtr rotationPtr (AlphaPtr (Some f)) i)
     = \<lparr>red = 255, green = 255, blue = 255, alpha = UInt8_of_float (255 * f i)\<rparr>"
  by (simp add: billboard_of_def SparsePtr_read_def)

subsection \<open>Lightweight clears\<close>

lemma Clear_lightweight_layer:
  "layers (Clear False q) k =
     (case layers q k of
        None \<Rightarrow> None
      | Some layer \<Rightarrow>
          if clearCount layer \<ge> 100 then None
          else Some (layer\<lparr>clearCount := clearCount layer + 1, otherDrawables := [],
                           transparentModels := [], transparentModelData := []\<rparr>))"
  by (simp add: Clear_def)

lemma Clear_repeated_layer:
  assumes "layers q k = Some layer"
  shows "layers ((Clear False ^^ n) q) k =
     (if n = 0 then Some layer
      else if clearCount layer + n \<le> 100
        then Some (layer\<lparr>clearCount := clearCount layer + n, otherDrawables := [],
                         transparentModels := [], transparentModelData := []\<rparr>)
        else None)"
proof (induction n)
  case 0
  then show ?case using assms by simp
next
  case (Suc n)
  show ?case
  proof (cases "n = 0")
    case True
    then show ?thesis using assms by (simp add: Clear_lightweight_layer)
  next
    case False
    then show ?thesis using Suc by (simp add: Clear_lightweight_layer)
  qed
qed

lemma AddDrawable_layer:
  "layers (AddDrawable env ro (Some d) q) ro =
     Some ((layer_at q ro)\<lparr>clearCount := 0,
             otherDrawables := otherDrawables (layer_at q ro) @ [Some d]\<rparr>)"
  by (simp add: AddDrawable_def GetLayer_def layer_at_def Let_def)

subsection \<open>The instancing flag\<close>

lemma AddMesh_opaque_layer:
  "\<not> IsEnabled_Blend env mat \<Longrightarrow>
   layers (AddMesh env ro mat data meshAABB matrix q) ro =
     Some ((layer_at q ro)\<lparr>clearCount := 0,
        opaqueModels := (opaqueModels (layer_at q ro))(mat \<mapsto>
          opaque_entry_after env mat data meshAABB matrix (opaqueModels (layer_at q ro) mat))\<rparr>)"
  by (simp add: AddMesh_def GetLayer_def layer_at_def opaque_entry_after_def Let_def
      split: option.splits prod.splits)

lemma flag_matches_connected: "flag_matches env (BatchedModelEntry_connected mat)"
  by (simp add: flag_matches_def BatchedModelEntry_connected_def)

lemma flag_matches_enabled: "flag_matches env (entry\<lparr>enabled := b\<rparr>) = flag_matches env entry"
  by (simp add: flag_matches_def)

lemma flag_matches_step:
  assumes "flag_matches env entry"
    and that: "meshMap entry k = Some (key, instanceEntry)
               \<or> (meshMap entry k = None \<and> instances instanceEntry = [])"
  shows "flag_matches env
     (entry\<lparr>meshMap := (meshMap entry)(k \<mapsto> (key, instanceEntry\<lparr>instances := instances instanceEntry @ [matrix]\<rparr>)),
            instancingEnabled :=
              (if length (instances instanceEntry @ [matrix]) \<ge> INSTANCING_MIN_INSTANCES_COUNT env
               then True else instancingEnabled entry)\<rparr>)"
proof -
  let ?n = "INSTANCING_MIN_INSTANCES_COUNT env"
  let ?ex = "\<lambda>m. \<exists>key data ie. m key = Some (data, ie) \<and> ?n \<le> length (instances ie)"
  let ?m' = "(meshMap entry)(k \<mapsto> (key, instanceEntry\<lparr>instances := instances instanceEntry @ [matrix]\<rparr>))"
  have ex: "?ex ?m' \<longleftrightarrow> ?n \<le> Suc (length (instances instanceEntry)) \<or> ?ex (meshMap entry)"
  proof
    assume "?ex ?m'"
    then obtain key' data ie where *: "?m' key' = Some (data, ie)" "?n \<le> length (instances ie)"
      by blast
    show "?n \<le> Suc (length (instances instanceEntry)) \<or> ?ex (meshMap entry)"
    proof (cases "key' = k")
      case True
      with * show ?thesis by auto
    next
      case False
      with * have "meshMap entry key' = Some (data, ie)" by simp
      with *(2) show ?thesis by blast
    qed
  next
    assume r: "?n \<le> Suc (length (instances instanceEntry)) \<or> ?ex (meshMap entry)"
    show "?ex ?m'"
    proof (cases "?n \<le> Suc (length (instances instanceEntry))")
      case True
      then have "?m' k = Some (key, instanceEntry\<lparr>instances := instances instanceEntry @ [matrix]\<rparr>)
                 \<and> ?n \<le> length (instances (instanceEntry\<lparr>instances := instances instanceEntry @ [matrix]\<rparr>))"
        by simp
      then show ?thesis by blast
    next
      case False
      with r obtain key' data ie where *: "meshMap entry key' = Some (data, ie)" "?n \<le> length (instances ie)"
        by blast
      have "key' \<noteq> k"
      proof
        assume "key' = k"
        with * that have "ie = instanceEntry" by auto
        with * False show False by simp
      qed
      with * have "?m' key' = Some (data, ie)" by simp
      with * show ?thesis by blast
    qed
  qed
  show ?thesis
    using assms(1) ex by (simp add: flag_matches_def)
qed

lemma flag_matches_after:
  assumes "case old of None \<Rightarrow> True | Some e \<Rightarrow> flag_matches env e"
  shows "flag_matches env (opaque_entry_after env mat data meshAABB matrix old)"
proof -
  let ?entry = "(case old of None \<Rightarrow> BatchedModelEntry_connected mat | Some e \<Rightarrow> e)\<lparr>enabled := True\<rparr>"
  have fm: "flag_matches env ?entry"
    using assms by (simp add: flag_matches_enabled flag_matches_connected split: option.splits)
  show ?thesis
  proof (cases "meshMap ?entry (MeshData_key env data)")
    case None
    then show ?thesis
      using flag_matches_step [where entry = ?entry and k = "MeshData_key env data" and key = data
          and instanceEntry = "MeshInstanceEntry_connected env data meshAABB" and env = env
          and matrix = matrix] fm
      by (simp add: opaque_entry_after_def MeshInstanceEntry_connected_def Let_def)
  next
    case (Some p)
    obtain key ie where p: "p = (key, ie)" by (cases p)
    show ?thesis
      using flag_matches_step [where entry = ?entry and k = "MeshData_key env data" and key = key
          and instanceEntry = ie and env = env and matrix = matrix] fm Some p
      by (simp add: opaque_entry_after_def Let_def)
  qed
qed


lemma flags_matchD:
  "flags_match env q \<Longrightarrow> layers q k = Some layer \<Longrightarrow> opaqueModels layer mat = Some entry
   \<Longrightarrow> flag_matches env entry"
  unfolding flags_match_def by blast

lemma flags_match_empty: "flags_match env empty_queue"
  by (simp add: flags_match_def empty_queue_def)

lemma AddMesh_keeps_flags:
  assumes inv: "flags_match env q"
  shows "flags_match env (AddMesh env ro mat0 data meshAABB matrix q)"
  unfolding flags_match_def
proof (intro allI impI)
  fix k layer mat entry
  assume l: "layers (AddMesh env ro mat0 data meshAABB matrix q) k = Some layer"
    and e: "opaqueModels layer mat = Some entry"
  show "flag_matches env entry"
  proof (cases "k = ro")
    case False
    with l have "layers q k = Some layer" by (simp add: AddMesh_other)
    then show ?thesis using inv e by (blast dest: flags_matchD)
  next
    case True
    have old: "flag_matches env x" if "opaqueModels (layer_at q ro) m = Some x" for m x
    proof (cases "layers q ro")
      case None
      with that show ?thesis by (simp add: layer_at_def Layer_new_def)
    next
      case (Some l0)
      with that have "opaqueModels l0 m = Some x" by (simp add: layer_at_def)
      with inv Some show ?thesis by (blast dest: flags_matchD)
    qed
    show ?thesis
    proof (cases "IsEnabled_Blend env mat0")
      case blend: True
      with l True e have "opaqueModels (layer_at q ro) mat = Some entry"
        by (auto simp: AddMesh_blend_layer)
      then show ?thesis by (rule old)
    next
      case opaque: False
      show ?thesis
      proof (cases "mat = mat0")
        case False
        with l True e opaque have "opaqueModels (layer_at q ro) mat = Some entry"
          by (auto simp: AddMesh_opaque_layer)
        then show ?thesis by (rule old)
      next
        case same: True
        with l True e opaque have
          "entry = opaque_entry_after env mat0 data meshAABB matrix (opaqueModels (layer_at q ro) mat0)"
          by (auto simp: AddMesh_opaque_layer)
        moreover have "case opaqueModels (layer_at q ro) mat0 of None \<Rightarrow> True
                         | Some x \<Rightarrow> flag_matches env x"
          using old by (auto split: option.splits)
        ultimately show ?thesis by (simp add: flag_matches_after)
      qed
    qed
  qed
qed

lemma AddMesh_calls_keep_flags:
  "flags_match env q \<Longrightarrow> flags_match env (AddMesh_calls env calls q)"
proof (induction calls arbitrary: q)
  case Nil
  then show ?case by (simp add: AddMesh_calls_def)
next
  case (Cons c calls)
  obtain ro mat0 data meshAABB matrix where c: "c = (ro, mat0, data, meshAABB, matrix)"
    by (cases c)
  have step: "AddMesh_calls env (c # calls) q
              = AddMesh_calls env calls (AddMesh env ro mat0 data meshAABB matrix q)"
    by (simp add: AddMesh_calls_def c)
  show ?case
    unfolding step using Cons.prems by (intro Cons.IH AddMesh_keeps_flags)
qed

lemma flag_billboards_added:
  "instancing_flag_at (billboards_added ro m new q) k mat = instancing_flag_at q k mat"
  by (simp add: instancing_flag_at_def opaque_entry_at_def billboards_added_layers layer_at_def
      Layer_new_def split: option.splits)

lemma flag_AddBillboard:
  "instancing_flag_at (AddBillboard ro m position sz sc col q) k mat = instancing_flag_at q k mat"
  by (simp add: AddBillboard_eq flag_billboards_added)

lemma flag_AddDrawable:
  "instancing_flag_at (AddDrawable env ro drawable q) k mat = instancing_flag_at q k mat"
  by (auto simp: instancing_flag_at_def opaque_entry_at_def AddDrawable_def GetLayer_def
      Layer_new_def Let_def split: option.splits)

lemma flag_AddSprites:
  "instancing_flag_at (AddSprites ro m verts sprites overlay q) k mat = instancing_flag_at q k mat"
  by (auto simp: instancing_flag_at_def opaque_entry_at_def AddSprites_def GetLayer_def
      Layer_new_def Let_def split: option.splits)

lemma flag_Sort:
  "instancing_flag_at (Sort env viewer q) k mat = instancing_flag_at q k mat"
  by (simp add: instancing_flag_at_def opaque_entry_at_def Sort_def Sort_layer_def Let_def
      split: option.splits)

lemma flag_OnIndexBufferInvalidation:
  "instancing_flag_at (OnIndexBufferInvalidation ib q) k mat = instancing_flag_at q k mat"
  by (simp add: instancing_flag_at_def opaque_entry_at_def OnIndexBufferInvalidation_def
      option.map_comp comp_def split: option.splits)

lemma flag_OnVertexBufferInvalidation:
  "instancing_flag_at (OnVertexBufferInvalidation vb q) k mat = instancing_flag_at q k mat"
  by (simp add: instancing_flag_at_def opaque_entry_at_def OnVertexBufferInvalidation_def
      option.map_comp comp_def split: option.splits)

lemma flag_OnTextureInvalidation:
  "instancing_flag_at (OnTextureInvalidation texture q) k mat = instancing_flag_at q k mat"
  by (simp add: instancing_flag_at_def opaque_entry_at_def OnTextureInvalidation_def
      split: option.splits)

lemma flag_OnMaterialInvalidation:
  "instancing_flag_at (OnMaterialInvalidation m q) k mat
     = (if m = mat then None else instancing_flag_at q k mat)"
  by (simp add: instancing_flag_at_def opaque_entry_at_def OnMaterialInvalidation_def
      split: option.splits)

lemma flag_Clear:
  "instancing_flag_at (Clear fully q) k mat
     = (if fully \<or> 100 \<le> clearCount (layer_at q k) then None else instancing_flag_at q k mat)"
  by (simp add: instancing_flag_at_def opaque_entry_at_def Clear_def layer_at_def Layer_new_def
      split: option.splits)

lemma instancingEnabled_after:
  "(case old of None \<Rightarrow> False | Some e \<Rightarrow> instancingEnabled e) \<Longrightarrow>
   instancingEnabled (opaque_entry_after env mat data meshAABB matrix old)"
  by (simp add: opaque_entry_after_def Let_def split: option.splits prod.splits)

lemma flag_AddMesh:
  assumes "instancing_flag_at q k mat = Some True"
  shows "instancing_flag_at (AddMesh env ro m data meshAABB matrix q) k mat = Some True"
proof (cases "k = ro")
  case False
  then show ?thesis
    using assms by (simp add: instancing_flag_at_def opaque_entry_at_def AddMesh_other)
next
  case True
  from assms True obtain layer entry where
    old: "layers q ro = Some layer" "opaqueModels layer mat = Some entry" "instancingEnabled entry"
    by (auto simp: instancing_flag_at_def opaque_entry_at_def split: option.splits)
  then have at: "layer_at q ro = layer" by (simp add: layer_at_def)
  show ?thesis
  proof (cases "IsEnabled_Blend env m")
    case True
    then show ?thesis
      using old \<open>k = ro\<close>
      by (simp add: instancing_flag_at_def opaque_entry_at_def AddMesh_blend_layer at)
  next
    case False
    have "instancingEnabled (opaque_entry_after env m data meshAABB matrix (opaqueModels layer m))"
      if "mat = m"
      using that old by (intro instancingEnabled_after) simp
    with False show ?thesis
      using old \<open>k = ro\<close>
      by (simp add: instancing_flag_at_def opaque_entry_at_def AddMesh_opaque_layer at)
  qed
qed


subsection \<open>Indices of the transparent list\<close>

text \<open>
  Every operation keeps the indices of the transparent lists inside their data vectors, so
  the comparator of \<^verbatim>\<open>Sort\<close> reads inside the vector in every queue that the operations
  build from the empty one.
\<close>

lemma layer_valid_new: "layer_valid Layer_new"
  by (simp add: layer_valid_def Layer_new_def)

lemma layer_valid_at: "indices_valid q \<Longrightarrow> layer_valid (layer_at q k)"
  by (auto simp: indices_valid_def layer_valid_def layer_at_def Layer_new_def split: option.splits)

lemma indices_validI:
  "(\<And>k layer. layers q k = Some layer \<Longrightarrow> layer_valid layer) \<Longrightarrow> indices_valid q"
  by (auto simp: indices_valid_def layer_valid_def)

lemma indices_validD: "indices_valid q \<Longrightarrow> layers q k = Some layer \<Longrightarrow> layer_valid layer"
  by (auto simp: indices_valid_def layer_valid_def)

lemma layer_valid_cong:
  "transparentModels l' = transparentModels l \<Longrightarrow> transparentModelData l' = transparentModelData l
   \<Longrightarrow> layer_valid l' = layer_valid l"
  by (simp add: layer_valid_def)

lemma indices_valid_step:
  assumes "indices_valid q"
    and "\<And>k layer'. layers q' k = Some layer' \<Longrightarrow> layer_valid (layer_at q k) \<Longrightarrow> layer_valid layer'"
  shows "indices_valid q'"
  using assms layer_valid_at [OF assms(1)] by (blast intro: indices_validI)

lemma indices_valid_billboards_added:
  "indices_valid q \<Longrightarrow> indices_valid (billboards_added ro m new q)"
  by (erule indices_valid_step)
    (auto simp: billboards_added_layers layer_at_def layer_valid_def split: option.splits if_splits)

lemma indices_valid_AddBillboard:
  "indices_valid q \<Longrightarrow> indices_valid (AddBillboard ro m position sz sc col q)"
  by (simp add: AddBillboard_eq indices_valid_billboards_added)

lemma indices_valid_AddBillboards:
  "indices_valid q \<Longrightarrow>
   AddBillboards ro m cnt positionPtr sizePtr rotationPtr colorPtr q = Inr q' \<Longrightarrow>
   indices_valid q'"
  by (auto simp: AddBillboards_eq indices_valid_billboards_added split: if_splits)

lemma indices_valid_AddDrawable:
  "indices_valid q \<Longrightarrow> indices_valid (AddDrawable env ro drawable q)"
  by (erule indices_valid_step)
    (auto simp: AddDrawable_def GetLayer_def layer_at_def layer_valid_def Let_def
      split: option.splits if_splits)

lemma indices_valid_AddSprites:
  "indices_valid q \<Longrightarrow> indices_valid (AddSprites ro m verts sprites overlay q)"
  by (erule indices_valid_step)
    (auto simp: AddSprites_def GetLayer_def layer_at_def layer_valid_def Let_def
      split: option.splits if_splits)

lemma indices_valid_AddMesh:
  "indices_valid q \<Longrightarrow> indices_valid (AddMesh env ro m data meshAABB matrix q)"
proof (erule indices_valid_step)
  fix k layer'
  assume l: "layers (AddMesh env ro m data meshAABB matrix q) k = Some layer'"
    and v: "layer_valid (layer_at q k)"
  show "layer_valid layer'"
  proof (cases "k = ro")
    case False
    with l v show ?thesis by (simp add: AddMesh_other layer_at_def)
  next
    case True
    show ?thesis
    proof (cases "IsEnabled_Blend env m")
      case blend: True
      with l v True show ?thesis
        by (auto simp: AddMesh_blend_layer layer_valid_def less_Suc_eq)
    next
      case False
      with l v True show ?thesis
        by (auto simp: AddMesh_opaque_layer layer_valid_def)
    qed
  qed
qed

lemma indices_valid_Clear:
  "indices_valid q \<Longrightarrow> indices_valid (Clear fully q)"
  by (erule indices_valid_step)
    (auto simp: Clear_def layer_at_def layer_valid_def split: option.splits if_splits)

lemma indices_valid_Sort:
  "indices_valid q \<Longrightarrow> indices_valid (Sort env viewer q)"
  by (erule indices_valid_step)
    (auto simp: Sort_def Sort_layer_def Let_def layer_at_def layer_valid_def set_std_sort)

lemma indices_valid_OnIndexBufferInvalidation:
  "indices_valid q \<Longrightarrow> indices_valid (OnIndexBufferInvalidation ib q)"
  by (erule indices_valid_step)
    (auto simp: OnIndexBufferInvalidation_def layer_at_def layer_valid_def)

lemma indices_valid_OnMaterialInvalidation:
  "indices_valid q \<Longrightarrow> indices_valid (OnMaterialInvalidation m q)"
  by (erule indices_valid_step)
    (auto simp: OnMaterialInvalidation_def layer_at_def layer_valid_def)

lemma indices_valid_OnTextureInvalidation:
  "indices_valid q \<Longrightarrow> indices_valid (OnTextureInvalidation texture q)"
  by (erule indices_valid_step)
    (auto simp: OnTextureInvalidation_def layer_at_def layer_valid_def)

lemma indices_valid_OnVertexBufferInvalidation:
  "indices_valid q \<Longrightarrow> indices_valid (OnVertexBufferInvalidation vb q)"
  by (erule indices_valid_step)
    (auto simp: OnVertexBufferInvalidation_def layer_at_def layer_valid_def)

lemma indices_valid_empty: "indices_valid empty_queue"
  by (simp add: indices_valid_def empty_queue_def)

lemma indices_valid_perform:
  "indices_valid q \<Longrightarrow> perform env call q = Inr q' \<Longrightarrow> indices_valid q'"
  by (cases call)
    (auto simp: indices_valid_AddBillboard indices_valid_AddBillboards indices_valid_AddDrawable
      indices_valid_AddMesh indices_valid_AddSprites indices_valid_Clear indices_valid_Sort
      indices_valid_OnIndexBufferInvalidation indices_valid_OnMaterialInvalidation
      indices_valid_OnTextureInvalidation indices_valid_OnVertexBufferInvalidation)

lemma indices_valid_perform_all:
  "indices_valid q \<Longrightarrow> perform_all env calls q = Inr q' \<Longrightarrow> indices_valid q'"
proof (induction calls arbitrary: q)
  case Nil
  then show ?case by simp
next
  case (Cons call calls)
  then show ?case
    by (cases "perform env call q") (auto dest: indices_valid_perform)
qed

lemma indices_valid_reachable:
  "perform_all env calls empty_queue = Inr q \<Longrightarrow> indices_valid q"
  using indices_valid_empty by (rule indices_valid_perform_all)

subsection \<open>The queues for evaluation\<close>

lemmas test_defs = AddMesh_calls_def test_calls_def eval_nat_numeral AddMesh_def GetLayer_def
  empty_queue_def Layer_new_def test_env_def test_mesh_def test_mesh_b_def MeshData_key_def
  BatchedModelEntry_connected_def MeshInstanceEntry_connected_def Let_def

lemma instancing_flag_atD:
  "instancing_flag_at q k mat = Some b \<Longrightarrow>
   \<exists>layer entry. layers q k = Some layer \<and> opaqueModels layer mat = Some entry
      \<and> instancingEnabled entry = b"
  by (auto simp: instancing_flag_at_def opaque_entry_at_def split: option.splits)

lemma test_calls_flag:
  "instancing_flag_at (AddMesh_calls test_env test_calls empty_queue) 0 1 = Some True"
  by (simp add: instancing_flag_at_def opaque_entry_at_def test_defs)

lemma test_calls_clearCount:
  "clearCount (layer_at (AddMesh_calls test_env test_calls empty_queue) 0) = 0"
  by (simp add: layer_at_def test_defs)

lemma test_billboards_layer:
  "\<exists>layer e3 e4. layers test_billboards 0 = Some layer
     \<and> billboards layer 3 = Some e3 \<and> billboards layer 4 = Some e4
     \<and> map center (entry_billboards e3) = [(0, 0, 1), (0, 0, 3), (0, 0, 2)]
     \<and> map center (entry_billboards e4) = [(0, 0, 1), (0, 0, 2)]"
  by (simp add: test_billboards_def AddBillboard_eq billboards_added_layers layer_at_def
      empty_queue_def Layer_new_def billboards_at_def BatchedBillboardEntry_connected_def)

lemma sqrt_nine: "sqrt 9 = 3"
  using real_sqrt_abs [of 3] by simp

lemma test_sprites_layer:
  "\<exists>layer entry. layers test_sprites 0 = Some layer \<and> basicSprites layer 5 = Some entry
     \<and> map_option spriteChains (overlayMap entry (Some 1)) = Some [\<lparr>vertices = 100, spriteCount = 1\<rparr>]
     \<and> map_option spriteChains (overlayMap entry (Some 2)) = Some [\<lparr>vertices = 200, spriteCount = 3\<rparr>]"
  by (simp add: test_sprites_def AddSprites_def GetLayer_def empty_queue_def Layer_new_def
      BatchedBasicSpriteEntry_connected_def Let_def)

lemma test_materials_layer:
  "\<exists>layer. layers test_materials 0 = Some layer
     \<and> opaqueModels layer 1 \<noteq> None \<and> basicSprites layer 1 \<noteq> None \<and> billboards layer 1 \<noteq> None
     \<and> map material (transparentModelData layer) = [2]"
  by (simp add: test_materials_def AddMesh_blend_layer AddMesh_opaque_layer AddBillboard_eq
      billboards_added_layers AddSprites_def GetLayer_def layer_at_def billboards_at_def
      test_env_def empty_queue_def Layer_new_def Let_def)

section \<open>The claims\<close>

text \<open>
  C1. The claim asks for the transparent list of every layer to be ordered, after
  \<^verbatim>\<open>Sort\<close>, far to near by the distance from the near plane to the negative vertex of the
  bounding sphere of each entry, as the comment of \<^verbatim>\<open>Sort\<close> does (furthest to nearest).
  The code does not do that: \<^verbatim>\<open>AddMesh\<close> stores the squared radius of the box in the radius
  field of the sphere, and the comparator of \<^verbatim>\<open>Sort\<close> takes the negative vertex of that
  stored sphere, so that it moves the centre by the squared radius. For the two meshes of
  \<open>test_spheres\<close> the bounding spheres have their negative vertices at the distances 7 and
  4, the comparator computes 1 and 4, and \<^verbatim>\<open>Sort\<close> leaves the list in the order 1, 0: the
  mesh that is wholly nearer comes first, and the distances of the claim come out
  ascending, 4 then 7.
\<close>

theorem Sort_transparent_nearest_first:
  "transparentModels (layer_at test_spheres 0) = [0, 1]
   \<and> map (bounding_sphere_distance test_env test_viewer (layer_at test_spheres 0))
         (transparentModels (layer_at test_spheres 0)) = [7, 4]
   \<and> map (comparator_distance test_env test_viewer (layer_at test_spheres 0))
         (transparentModels (layer_at test_spheres 0)) = [1, 4]
   \<and> transparentModels (layer_at (Sort test_env test_viewer test_spheres) 0) = [1, 0]
   \<and> map (bounding_sphere_distance test_env test_viewer
              (layer_at (Sort test_env test_viewer test_spheres) 0))
         (transparentModels (layer_at (Sort test_env test_viewer test_spheres) 0)) = [4, 7]"
  by (simp add: layer_at_def [of "Sort _ _ _"] layer_at_def [of test_spheres] Sort_layer_eq
      Sort_layer_def Let_def std_sort_def test_spheres_def AddMesh_blend_layer layer_at_def
      empty_queue_def Layer_new_def bounding_sphere_distance_def comparator_distance_def
      test_env_def test_viewer_def Vector3f_add_def power2_eq_square sqrt_nine)

text \<open>
  C2. \<^verbatim>\<open>AddMesh\<close> with a material that has alpha blending enabled appends the submission
  to the transparent list of its layer: the new entry is the last of the data vector,
  its sphere has the translation of the transform plus the centre of the box as centre
  and the squared radius of the box as radius, and its index is the last of the index
  list. The opaque batches of every layer are what they were.
\<close>

theorem AddMesh_alpha_blending_appends:
  assumes "IsEnabled_Blend env mat"
  shows "\<exists>layer. layers (AddMesh env renderOrder mat data meshAABB matrix q) renderOrder = Some layer
           \<and> transparentModelData layer = transparentModelData (layer_at q renderOrder) @
                [\<lparr>material = mat, meshData = data,
                  squaredBoundingSphere =
                    \<lparr>sphere_center = Vector3f_add (GetTranslation env matrix) (GetCenter env meshAABB),
                     radius = GetSquaredRadius env meshAABB\<rparr>,
                  transformMatrix = matrix\<rparr>]
           \<and> transparentModels layer = transparentModels (layer_at q renderOrder)
                @ [length (transparentModelData (layer_at q renderOrder))]
           \<and> (\<forall>k. opaqueModels (layer_at (AddMesh env renderOrder mat data meshAABB matrix q) k)
                   = opaqueModels (layer_at q k))"
proof -
  have other: "opaqueModels (layer_at (AddMesh env renderOrder mat data meshAABB matrix q) k)
                 = opaqueModels (layer_at q k)" for k
  proof (cases "k = renderOrder")
    case True
    then show ?thesis
      using assms
      by (simp add: layer_at_def [of "AddMesh env renderOrder mat data meshAABB matrix q"]
          AddMesh_blend_layer)
  next
    case False
    then show ?thesis by (simp add: layer_at_def AddMesh_other)
  qed
  show ?thesis using assms other by (simp add: AddMesh_blend_layer)
qed

theorem AddMesh_alpha_blending_appends_witness:
  "IsEnabled_Blend test_env 2
   \<and> (\<exists>layer. layers (AddMesh test_env 0 2 test_mesh ((0, 0, 0), (2, 4, 6)) (10, 20, 30)
                        empty_queue) 0 = Some layer
        \<and> map squaredBoundingSphere (transparentModelData layer)
            = [\<lparr>sphere_center = (11, 22, 33), radius = 14\<rparr>]
        \<and> transparentModels layer = [0]
        \<and> opaqueModels layer = Map.empty)"
proof -
  have h: "IsEnabled_Blend test_env 2" by (simp add: test_env_def)
  show ?thesis
    using h AddMesh_alpha_blending_appends [OF h, of 0 test_mesh
        "((0, 0, 0), (2, 4, 6))" "(10, 20, 30)" empty_queue]
    by (auto simp: layer_at_def empty_queue_def Layer_new_def test_env_def Vector3f_add_def
        power2_eq_square dest: spec [of _ 0])
qed

text \<open>
  C3, as amended. The flag \<^verbatim>\<open>instancingEnabled\<close> belongs to the batch of a material, not
  to one mesh of it. After any sequence of \<^verbatim>\<open>AddMesh\<close> calls on the empty queue, the flag
  of the batch of a material in a layer is set if and only if some mesh of that batch has
  accumulated at least \<^verbatim>\<open>NAZARA_GRAPHICS_INSTANCING_MIN_INSTANCES_COUNT\<close> instances.
\<close>

theorem AddMesh_instancing_flag:
  assumes "layers (AddMesh_calls env calls empty_queue) k = Some layer"
    and "opaqueModels layer mat = Some entry"
  shows "instancingEnabled entry \<longleftrightarrow>
          (\<exists>key data instanceEntry. meshMap entry key = Some (data, instanceEntry)
              \<and> INSTANCING_MIN_INSTANCES_COUNT env \<le> length (instances instanceEntry))"
proof -
  have "flags_match env (AddMesh_calls env calls empty_queue)"
    by (intro AddMesh_calls_keep_flags flags_match_empty)
  then have "flag_matches env entry"
    using assms by (rule flags_matchD)
  then show ?thesis by (simp add: flag_matches_def)
qed


theorem AddMesh_instancing_flag_witness:
  "\<exists>layer entry. layers (AddMesh_calls test_env test_calls empty_queue) 0 = Some layer
     \<and> opaqueModels layer 1 = Some entry
     \<and> instancingEnabled entry
     \<and> (\<exists>key data instanceEntry. meshMap entry key = Some (data, instanceEntry)
           \<and> 10 \<le> length (instances instanceEntry))"
proof -
  from instancing_flag_atD [OF test_calls_flag] obtain layer entry
    where h1: "layers (AddMesh_calls test_env test_calls empty_queue) 0 = Some layer"
      and h2: "opaqueModels layer 1 = Some entry" and h3: "instancingEnabled entry"
    by auto
  have n: "INSTANCING_MIN_INSTANCES_COUNT test_env = 10" by (simp add: test_env_def)
  from h3 AddMesh_instancing_flag [OF h1 h2]
  have "\<exists>key data instanceEntry. meshMap entry key = Some (data, instanceEntry)
           \<and> 10 \<le> length (instances instanceEntry)"
    unfolding n by (rule rev_iffD1)
  with h1 h2 h3 show ?thesis by blast
qed

text \<open>
  The claim C3 as it is written fails when the threshold is above one, here ten: after
  ten instances of one mesh and one instance of a second mesh with the same material, the
  flag found for the second mesh is set although that mesh has a single instance.
\<close>

theorem AddMesh_instancing_flag_counterexample:
  "instancing_flag_at (AddMesh_calls test_env test_calls empty_queue) 0 1 = Some True
   \<and> instance_count_at test_env (AddMesh_calls test_env test_calls empty_queue) 0 1 test_mesh_b = Some 1
   \<and> INSTANCING_MIN_INSTANCES_COUNT test_env = 10"
  by (simp add: instancing_flag_at_def instance_count_at_def opaque_entry_at_def test_defs)

text \<open>
  C4, as amended. After \<^verbatim>\<open>OnMaterialInvalidation\<close> for a material, that material is a key
  of none of the three batch maps (opaque models, sprites, billboards) of any layer. The
  transparent list of each layer is left as it was, so the entries it holds for the
  material stay until the list is cleared.
\<close>

theorem OnMaterialInvalidation_batches:
  assumes "layers (OnMaterialInvalidation mat q) k = Some layer'"
  shows "opaqueModels layer' mat = None \<and> basicSprites layer' mat = None
         \<and> billboards layer' mat = None
         \<and> (\<exists>layer. layers q k = Some layer
               \<and> transparentModelData layer' = transparentModelData layer
               \<and> transparentModels layer' = transparentModels layer)"
  using assms by (auto simp: OnMaterialInvalidation_layer)

theorem OnMaterialInvalidation_batches_witness:
  "\<exists>layer layer'. layers test_materials 0 = Some layer
     \<and> opaqueModels layer 1 \<noteq> None \<and> basicSprites layer 1 \<noteq> None \<and> billboards layer 1 \<noteq> None
     \<and> map material (transparentModelData layer) = [2]
     \<and> layers (OnMaterialInvalidation 1 test_materials) 0 = Some layer'
     \<and> opaqueModels layer' 1 = None \<and> basicSprites layer' 1 = None \<and> billboards layer' 1 = None
     \<and> map material (transparentModelData layer') = [2]"
proof -
  from test_materials_layer obtain layer where
    l: "layers test_materials 0 = Some layer"
    and b: "opaqueModels layer 1 \<noteq> None" "basicSprites layer 1 \<noteq> None" "billboards layer 1 \<noteq> None"
    and t: "map material (transparentModelData layer) = [2]"
    by (elim exE conjE)
  from l obtain layer' where l': "layers (OnMaterialInvalidation 1 test_materials) 0 = Some layer'"
    by (simp add: OnMaterialInvalidation_layer)
  note r = OnMaterialInvalidation_batches [OF l']
  from r l have "transparentModelData layer' = transparentModelData layer" by auto
  with t have t': "map material (transparentModelData layer') = [2]" by simp
  from l b t l' r [THEN conjunct1] r [THEN conjunct2, THEN conjunct1]
    r [THEN conjunct2, THEN conjunct2, THEN conjunct1] t'
  show ?thesis by (intro exI conjI)
qed

text \<open>
  The claim C4 as it is written fails. In \<open>test_materials\<close> the alpha blended material 2
  has a billboard batch in layer 0, whose slot is connected to the release signal of the
  material, and a mesh in the transparent list of that layer. After the release of
  material 2 has been notified the billboard batch is gone, and the mesh is still in the
  transparent list with its reference to the material.
\<close>

theorem OnMaterialInvalidation_transparent_counterexample:
  "map_option billboard_materialReleaseSlot (billboards (layer_at test_materials 0) 2) = Some (Some 2)
   \<and> billboards (layer_at (OnMaterialInvalidation 2 test_materials) 0) 2 = None
   \<and> map material (transparentModelData (layer_at (OnMaterialInvalidation 2 test_materials) 0)) = [2]"
  by (simp add: layer_at_def OnMaterialInvalidation_def test_materials_def AddMesh_blend_layer
      AddMesh_opaque_layer AddBillboard_eq billboards_added_layers billboards_at_def
      BatchedBillboardEntry_connected_def AddSprites_def GetLayer_def test_env_def
      empty_queue_def Layer_new_def Let_def)

text \<open>
  C5, as amended. Let a layer be in the registry with counter \<open>c\<close>, and let \<^verbatim>\<open>Clear(false)\<close>
  be called \<open>n\<close> times with no submission in between. While \<open>c + n \<le> 100\<close> the layer is
  kept: its transparent meshes and drawables are emptied, its opaque, sprite and billboard
  maps are untouched, and its counter is \<open>c + n\<close>. From \<open>c + n = 101\<close> on the layer is
  gone. A submission resets the counter to 0, so the layer is removed by the 101st
  consecutive lightweight clear, the first one that finds the counter at 100.
\<close>

theorem Clear_lightweight_repeated:
  assumes "layers q k = Some layer"
  shows "layers ((Clear False ^^ n) q) k =
     (if n = 0 then Some layer
      else if clearCount layer + n \<le> 100
        then Some (layer\<lparr>clearCount := clearCount layer + n, otherDrawables := [],
                         transparentModels := [], transparentModelData := []\<rparr>)
        else None)"
  using assms by (rule Clear_repeated_layer)

theorem Clear_lightweight_repeated_witness:
  "layers ((Clear False ^^ 100) (AddDrawable test_env 0 (Some 1) empty_queue)) 0
     = Some (Layer_new\<lparr>clearCount := 100\<rparr>)
   \<and> layers ((Clear False ^^ 101) (AddDrawable test_env 0 (Some 1) empty_queue)) 0 = None"
proof -
  have h: "layers (AddDrawable test_env 0 (Some 1) empty_queue) 0
             = Some (Layer_new\<lparr>otherDrawables := [Some 1]\<rparr>)"
    by (simp add: AddDrawable_layer layer_at_def empty_queue_def Layer_new_def)
  show ?thesis
    using Clear_lightweight_repeated [OF h, of 100] Clear_lightweight_repeated [OF h, of 101]
    by (simp add: Layer_new_def)
qed

text \<open>
  The claim C5 as it is written fails: after a submission to layer 0 and one hundred
  consecutive lightweight clears, the layer is still in the registry.
\<close>

theorem Clear_hundred_counterexample:
  "layers ((Clear False ^^ 100) (AddDrawable test_env 0 (Some 1) empty_queue)) 0 \<noteq> None"
proof -
  have h: "layers (AddDrawable test_env 0 (Some 1) empty_queue) 0
             = Some (Layer_new\<lparr>otherDrawables := [Some 1]\<rparr>)"
    by (simp add: AddDrawable_layer layer_at_def empty_queue_def Layer_new_def)
  show ?thesis
    using Clear_repeated_layer [OF h, of 100] by (simp add: Layer_new_def)
qed

text \<open>
  C6, as amended. \<^verbatim>\<open>AddBillboards\<close> with a positive count \<open>cnt\<close> appends \<open>cnt\<close> entries to
  the batch of the material. In each of them: a null rotation pointer (sine and cosine
  pairs, or angles) gives \<open>sinCos = (0, 1)\<close>; a null colour pointer gives opaque white; a
  null alpha pointer gives alpha 255; a supplied alpha value \<open>x\<close> gives the colour
  (255, 255, 255, a) where \<open>a\<close> is \<open>255 * x\<close> with its fractional part discarded, not
  rounded (for \<open>0 \<le> 255 * x < 256\<close>). With a count of zero no entry is appended and the
  call has no defined result.
\<close>

theorem AddBillboards_defaults:
  "if cnt = 0
   then AddBillboards renderOrder mat cnt positionPtr sizePtr rotationPtr colorPtr q
          = Inl OutOfRangeSubscript
   else (\<exists>q' layer entry new.
       AddBillboards renderOrder mat cnt positionPtr sizePtr rotationPtr colorPtr q = Inr q'
     \<and> layers q' renderOrder = Some layer
     \<and> billboards layer mat = Some entry
     \<and> entry_billboards entry = billboards_at q renderOrder mat @ new
     \<and> length new = cnt
     \<and> (\<forall>i<cnt.
          (rotationPtr = SinCosPtr None \<or> rotationPtr = AnglePtr None \<longrightarrow> sinCos (new ! i) = (0, 1))
        \<and> (colorPtr = ColorPtr None \<longrightarrow> color (new ! i) = Color_White)
        \<and> (colorPtr = AlphaPtr None \<longrightarrow> alpha (color (new ! i)) = 255)
        \<and> (\<forall>f. colorPtr = AlphaPtr (Some f) \<longrightarrow>
               red (color (new ! i)) = 255 \<and> green (color (new ! i)) = 255
             \<and> blue (color (new ! i)) = 255
             \<and> (0 \<le> 255 * f i \<and> 255 * f i < 256 \<longrightarrow> uint (alpha (color (new ! i))) = \<lfloor>255 * f i\<rfloor>))))"
proof (cases "cnt = 0")
  case True
  then show ?thesis by (simp add: AddBillboards_zero)
next
  case False
  let ?new = "map (billboard_of positionPtr sizePtr rotationPtr colorPtr) [0..<cnt]"
  let ?q' = "billboards_added renderOrder mat ?new q"
  let ?entry = "(case billboards (layer_at q renderOrder) mat of
             None \<Rightarrow> BatchedBillboardEntry_connected mat | Some e \<Rightarrow> e)
          \<lparr>entry_billboards := billboards_at q renderOrder mat @ ?new\<rparr>"
  let ?layer = "(layer_at q renderOrder)\<lparr>clearCount := 0,
        billboards := (billboards (layer_at q renderOrder))(mat \<mapsto> ?entry)\<rparr>"
  have "\<exists>q' layer entry new.
       AddBillboards renderOrder mat cnt positionPtr sizePtr rotationPtr colorPtr q = Inr q'
     \<and> layers q' renderOrder = Some layer
     \<and> billboards layer mat = Some entry
     \<and> entry_billboards entry = billboards_at q renderOrder mat @ new
     \<and> length new = cnt
     \<and> (\<forall>i<cnt.
          (rotationPtr = SinCosPtr None \<or> rotationPtr = AnglePtr None \<longrightarrow> sinCos (new ! i) = (0, 1))
        \<and> (colorPtr = ColorPtr None \<longrightarrow> color (new ! i) = Color_White)
        \<and> (colorPtr = AlphaPtr None \<longrightarrow> alpha (color (new ! i)) = 255)
        \<and> (\<forall>f. colorPtr = AlphaPtr (Some f) \<longrightarrow>
               red (color (new ! i)) = 255 \<and> green (color (new ! i)) = 255
             \<and> blue (color (new ! i)) = 255
             \<and> (0 \<le> 255 * f i \<and> 255 * f i < 256 \<longrightarrow> uint (alpha (color (new ! i))) = \<lfloor>255 * f i\<rfloor>)))"
  proof (intro exI conjI allI impI)
    show "AddBillboards renderOrder mat cnt positionPtr sizePtr rotationPtr colorPtr q = Inr ?q'"
      using False by (simp add: AddBillboards_positive)
    show "layers ?q' renderOrder = Some ?layer"
      by (simp add: billboards_added_layers)
    show "billboards ?layer mat = Some ?entry"
      by simp
    show "entry_billboards ?entry = billboards_at q renderOrder mat @ ?new"
      by simp
    show "length ?new = cnt" by simp
  next
    fix i assume "i < cnt" "rotationPtr = SinCosPtr None \<or> rotationPtr = AnglePtr None"
    then show "sinCos (map (billboard_of positionPtr sizePtr rotationPtr colorPtr) [0..<cnt] ! i) = (0, 1)"
      by (auto simp: billboard_of_SinCos_null billboard_of_Angle_null)
  next
    fix i assume "i < cnt" "colorPtr = ColorPtr None"
    then show "color (map (billboard_of positionPtr sizePtr rotationPtr colorPtr) [0..<cnt] ! i) = Color_White"
      by (simp add: billboard_of_Color_null)
  next
    fix i assume "i < cnt" "colorPtr = AlphaPtr None"
    then show "alpha (color (map (billboard_of positionPtr sizePtr rotationPtr colorPtr) [0..<cnt] ! i)) = 255"
      by (simp add: billboard_of_Alpha_null Color_White_def)
  next
    fix i f assume "i < cnt" "colorPtr = AlphaPtr (Some f)"
    then show "red (color (map (billboard_of positionPtr sizePtr rotationPtr colorPtr) [0..<cnt] ! i)) = 255"
      "green (color (map (billboard_of positionPtr sizePtr rotationPtr colorPtr) [0..<cnt] ! i)) = 255"
      "blue (color (map (billboard_of positionPtr sizePtr rotationPtr colorPtr) [0..<cnt] ! i)) = 255"
      by (simp_all add: billboard_of_Alpha)
  next
    fix i f assume "i < cnt" "colorPtr = AlphaPtr (Some f)" "0 \<le> 255 * f i \<and> 255 * f i < 256"
    then show "uint (alpha (color (map (billboard_of positionPtr sizePtr rotationPtr colorPtr) [0..<cnt] ! i)))
         = \<lfloor>255 * f i\<rfloor>"
      by (simp add: billboard_of_Alpha uint_UInt8_of_float)
  qed
  with False show ?thesis by (simp only: if_False)
qed

theorem AddBillboards_defaults_witness:
  "\<exists>q' layer entry. AddBillboards 0 7 2 (\<lambda>i. (0, 0, 0)) (SizeFloat (\<lambda>i. 1)) (AnglePtr None)
                          (AlphaPtr (Some (\<lambda>i. 3 / 8))) (empty_queue :: Vector3f ForwardRenderQueue)
                     = Inr q'
     \<and> layers q' 0 = Some layer
     \<and> billboards layer 7 = Some entry
     \<and> length (entry_billboards entry) = 2
     \<and> sinCos (entry_billboards entry ! 0) = (0, 1) \<and> sinCos (entry_billboards entry ! 1) = (0, 1)
     \<and> uint (alpha (color (entry_billboards entry ! 0))) = 95
     \<and> uint (alpha (color (entry_billboards entry ! 1))) = 95"
proof -
  let ?f = "\<lambda>i::nat. 3 / 8 :: real"
  have "(2::nat) \<noteq> 0" by simp
  with AddBillboards_defaults [of 2 0 7 "\<lambda>i. (0, 0, 0)" "SizeFloat (\<lambda>i. 1)" "AnglePtr None"
      "AlphaPtr (Some ?f)" "empty_queue :: Vector3f ForwardRenderQueue"]
  obtain q' layer entry new where
    a: "AddBillboards 0 7 2 (\<lambda>i. (0, 0, 0)) (SizeFloat (\<lambda>i. 1)) (AnglePtr None)
          (AlphaPtr (Some ?f)) (empty_queue :: Vector3f ForwardRenderQueue) = Inr q'"
    and l: "layers q' 0 = Some layer"
    and e: "billboards layer 7 = Some entry"
    and n: "entry_billboards entry = billboards_at (empty_queue :: Vector3f ForwardRenderQueue) 0 7 @ new"
    and len: "length new = 2"
    and p: "\<forall>i<2. sinCos (new ! i) = (0, 1)
              \<and> (0 \<le> 255 * ?f i \<and> 255 * ?f i < 256 \<longrightarrow> uint (alpha (color (new ! i))) = \<lfloor>255 * ?f i\<rfloor>)"
    by auto
  have n': "entry_billboards entry = new"
    using n by (simp add: billboards_at_def empty_queue_def)
  have fl: "\<lfloor>255 * (3 / 8 :: real)\<rfloor> = 95" by simp
  from p have "sinCos (new ! 0) = (0, 1)" "sinCos (new ! 1) = (0, 1)"
    "uint (alpha (color (new ! 0))) = 95" "uint (alpha (color (new ! 1))) = 95"
    using fl by auto
  with a l e len n' show ?thesis by simp
qed

text \<open>
  The claim C6 as it is written fails: the alpha value 3/8 gives the alpha 95, the
  integer part of 95.625, where rounding gives 96.
\<close>

theorem AddBillboards_alpha_counterexample:
  "map_option (map (uint \<circ> alpha \<circ> color))
     (result_billboards_at (AddBillboards 0 7 1 (\<lambda>i. (0, 0, 0)) (SizeFloat (\<lambda>i. 1)) (SinCosPtr None)
        (AlphaPtr (Some (\<lambda>i. 3 / 8))) (empty_queue :: Vector3f ForwardRenderQueue)) 0 7) = Some [95]
   \<and> round (255 * (3 / 8 :: real)) = 96"
  by (simp add: result_billboards_at_def AddBillboards_positive billboards_at_def
      billboards_added_layers empty_queue_def billboard_of_def SparsePtr_read_def
      UInt8_of_float_def round_def)

text \<open>
  C7. After \<^verbatim>\<open>Sort\<close>, in every layer, a billboard batch whose material has depth sorting
  enabled holds the billboards it held before, ordered by descending squared distance from
  the eye position of the viewer to their centres; a batch whose material has not is
  unchanged. In \<open>test_billboards\<close> the billboards of material 3, submitted at the depths 1,
  3, 2, come out at the depths 3, 2, 1, and those of material 4 stay at 1, 2.
\<close>

theorem Sort_billboards_by_depth:
  assumes "layers q k = Some layer" and "billboards layer mat = Some entry"
  shows "\<exists>layer' entry'. layers (Sort env viewer q) k = Some layer'
     \<and> billboards layer' mat = Some entry'
     \<and> billboard_materialReleaseSlot entry' = billboard_materialReleaseSlot entry
     \<and> (if IsDepthSortingEnabled env mat
        then sorted_wrt (\<lambda>data1 data2. SquaredDistance env (GetEyePosition viewer) (center data1)
                                     \<ge> SquaredDistance env (GetEyePosition viewer) (center data2))
               (entry_billboards entry')
           \<and> mset (entry_billboards entry') = mset (entry_billboards entry)
        else entry' = entry)"
proof (cases "IsDepthSortingEnabled env mat")
  case True
  let ?f = "\<lambda>d. SquaredDistance env (GetEyePosition viewer) (center d)"
  let ?entry' = "entry\<lparr>entry_billboards :=
                   std_sort (\<lambda>data1 data2. ?f data1 > ?f data2) (entry_billboards entry)\<rparr>"
  have 1: "layers (Sort env viewer q) k = Some (Sort_layer env viewer layer)"
    using assms(1) by (simp add: Sort_layer_eq)
  have 2: "billboards (Sort_layer env viewer layer) mat = Some ?entry'"
    using assms(2) True by (simp add: Sort_layer_billboards)
  have 3: "sorted_wrt (\<lambda>data1 data2. ?f data1 \<ge> ?f data2) (entry_billboards ?entry')"
    using sorted_std_sort [of ?f "entry_billboards entry"] by simp
  have 4: "mset (entry_billboards ?entry') = mset (entry_billboards entry)"
    by (simp add: mset_std_sort)
  have 5: "billboard_materialReleaseSlot ?entry' = billboard_materialReleaseSlot entry"
    by simp
  have "\<exists>layer' entry'. layers (Sort env viewer q) k = Some layer'
     \<and> billboards layer' mat = Some entry'
     \<and> billboard_materialReleaseSlot entry' = billboard_materialReleaseSlot entry
     \<and> (sorted_wrt (\<lambda>data1 data2. ?f data1 \<ge> ?f data2) (entry_billboards entry')
           \<and> mset (entry_billboards entry') = mset (entry_billboards entry))"
  proof (intro exI conjI)
    show "layers (Sort env viewer q) k = Some (Sort_layer env viewer layer)" by (rule 1)
    show "billboards (Sort_layer env viewer layer) mat = Some ?entry'" by (rule 2)
    show "billboard_materialReleaseSlot ?entry' = billboard_materialReleaseSlot entry" by (rule 5)
    show "sorted_wrt (\<lambda>data1 data2. ?f data1 \<ge> ?f data2) (entry_billboards ?entry')" by (rule 3)
    show "mset (entry_billboards ?entry') = mset (entry_billboards entry)" by (rule 4)
  qed
  then show ?thesis using True by (simp only: if_P)
next
  case False
  have 1: "layers (Sort env viewer q) k = Some (Sort_layer env viewer layer)"
    using assms(1) by (simp add: Sort_layer_eq)
  have 2: "billboards (Sort_layer env viewer layer) mat = Some entry"
    using assms(2) False by (simp add: Sort_layer_billboards)
  from 1 2 False show ?thesis by simp
qed

theorem Sort_billboards_by_depth_witness:
  "\<exists>layer e3 e4 layer' e3' e4'. layers test_billboards 0 = Some layer
     \<and> billboards layer 3 = Some e3 \<and> billboards layer 4 = Some e4
     \<and> map center (entry_billboards e3) = [(0, 0, 1), (0, 0, 3), (0, 0, 2)]
     \<and> map center (entry_billboards e4) = [(0, 0, 1), (0, 0, 2)]
     \<and> IsDepthSortingEnabled test_env 3 \<and> \<not> IsDepthSortingEnabled test_env 4
     \<and> layers (Sort test_env test_viewer test_billboards) 0 = Some layer'
     \<and> billboards layer' 3 = Some e3' \<and> billboards layer' 4 = Some e4'
     \<and> map center (entry_billboards e3') = [(0, 0, 3), (0, 0, 2), (0, 0, 1)]
     \<and> map (\<lambda>d. SquaredDistance test_env (GetEyePosition test_viewer) (center d))
           (entry_billboards e3') = [9, 4, 1]
     \<and> sorted_wrt (\<lambda>data1 data2.
             SquaredDistance test_env (GetEyePosition test_viewer) (center data1)
             \<ge> SquaredDistance test_env (GetEyePosition test_viewer) (center data2))
          (entry_billboards e3')
     \<and> map center (entry_billboards e4') = [(0, 0, 1), (0, 0, 2)]"
proof -
  from test_billboards_layer obtain layer e3 e4 where
    l: "layers test_billboards 0 = Some layer"
    and b3: "billboards layer 3 = Some e3" and b4: "billboards layer 4 = Some e4"
    and c3: "map center (entry_billboards e3) = [(0, 0, 1), (0, 0, 3), (0, 0, 2)]"
    and c4: "map center (entry_billboards e4) = [(0, 0, 1), (0, 0, 2)]"
    by (elim exE conjE)
  have d3: "IsDepthSortingEnabled test_env 3" and d4: "\<not> IsDepthSortingEnabled test_env 4"
    by (simp_all add: test_env_def)
  from Sort_billboards_by_depth [OF l b3, of test_env test_viewer] d3
  obtain layer' e3' where
    l': "layers (Sort test_env test_viewer test_billboards) 0 = Some layer'"
    and b3': "billboards layer' 3 = Some e3'"
    and s3: "sorted_wrt (\<lambda>data1 data2.
             SquaredDistance test_env (GetEyePosition test_viewer) (center data1)
             \<ge> SquaredDistance test_env (GetEyePosition test_viewer) (center data2))
          (entry_billboards e3')"
    by auto
  from Sort_billboards_by_depth [OF l b4, of test_env test_viewer] d4 l'
  have b4': "billboards layer' 4 = Some e4"
    by auto
  from l l' have ls: "layer' = Sort_layer test_env test_viewer layer"
    by (simp add: Sort_layer_eq)
  from c3 obtain x y z where xyz: "entry_billboards e3 = [x, y, z]"
    "center x = (0, 0, 1)" "center y = (0, 0, 3)" "center z = (0, 0, 2)"
    by (auto simp: map_eq_Cons_conv)
  from b3' b3 d3 have e3': "entry_billboards e3' =
      std_sort (\<lambda>data1 data2. SquaredDistance test_env (GetEyePosition test_viewer) (center data1)
                             > SquaredDistance test_env (GetEyePosition test_viewer) (center data2))
        (entry_billboards e3)"
    unfolding ls by (auto simp: Sort_layer_billboards)
  have o3: "entry_billboards e3' = [y, z, x]"
    unfolding e3' xyz(1) using xyz(2-4)
    by (simp add: std_sort_def test_env_def test_viewer_def)
  have c3': "map center (entry_billboards e3') = [(0, 0, 3), (0, 0, 2), (0, 0, 1)]"
    using o3 xyz by simp
  have q3: "map (\<lambda>d. SquaredDistance test_env (GetEyePosition test_viewer) (center d))
           (entry_billboards e3') = [9, 4, 1]"
    using o3 xyz by (simp add: test_env_def test_viewer_def)
  from l b3 b4 c3 c4 d3 d4 l' b3' b4' c3' q3 s3 c4 show ?thesis by (intro exI conjI)
qed

text \<open>
  C8. \<^verbatim>\<open>OnTextureInvalidation\<close> keeps the layers and, in each layer, the sprite batches;
  in each sprite batch the bucket of the texture is removed and every other bucket, with
  its chains and their counts, is what it was; the slot and the flag of the sprite batch,
  and every other part of the layer, are unchanged.
\<close>

theorem OnTextureInvalidation_bucket:
  "(layers (OnTextureInvalidation texture q) k = None \<longleftrightarrow> layers q k = None)
   \<and> (\<forall>layer layer'. layers q k = Some layer \<and> layers (OnTextureInvalidation texture q) k = Some layer'
        \<longrightarrow> opaqueModels layer' = opaqueModels layer
          \<and> billboards layer' = billboards layer
          \<and> transparentModels layer' = transparentModels layer
          \<and> transparentModelData layer' = transparentModelData layer
          \<and> otherDrawables layer' = otherDrawables layer
          \<and> clearCount layer' = clearCount layer
          \<and> (\<forall>mat. (basicSprites layer' mat = None \<longleftrightarrow> basicSprites layer mat = None)
               \<and> (\<forall>entry entry'. basicSprites layer mat = Some entry \<and> basicSprites layer' mat = Some entry'
                    \<longrightarrow> sprite_materialReleaseSlot entry' = sprite_materialReleaseSlot entry
                      \<and> sprite_enabled entry' = sprite_enabled entry
                      \<and> overlayMap entry' texture = None
                      \<and> (\<forall>t. t \<noteq> texture \<longrightarrow> overlayMap entry' t = overlayMap entry t))))"
  by (auto simp: OnTextureInvalidation_def)

theorem OnTextureInvalidation_bucket_witness:
  "\<exists>layer entry layer' entry'. layers test_sprites 0 = Some layer
     \<and> basicSprites layer 5 = Some entry
     \<and> overlayMap entry (Some 1) \<noteq> None
     \<and> layers (OnTextureInvalidation (Some 1) test_sprites) 0 = Some layer'
     \<and> basicSprites layer' 5 = Some entry'
     \<and> overlayMap entry' (Some 1) = None
     \<and> map_option spriteChains (overlayMap entry' (Some 2))
          = Some [\<lparr>vertices = 200, spriteCount = 3\<rparr>]"
proof -
  from test_sprites_layer obtain layer entry where
    l: "layers test_sprites 0 = Some layer" and e: "basicSprites layer 5 = Some entry"
    and o1: "map_option spriteChains (overlayMap entry (Some 1)) = Some [\<lparr>vertices = 100, spriteCount = 1\<rparr>]"
    and o2: "map_option spriteChains (overlayMap entry (Some 2)) = Some [\<lparr>vertices = 200, spriteCount = 3\<rparr>]"
    by blast
  note t = OnTextureInvalidation_bucket [of "Some 1" test_sprites 0]
  from t [THEN conjunct1] l
  obtain layer' where l': "layers (OnTextureInvalidation (Some 1) test_sprites) 0 = Some layer'"
    by (cases "layers (OnTextureInvalidation (Some 1) test_sprites) 0") simp_all
  note t2 = t [THEN conjunct2, THEN spec, THEN spec, THEN mp, OF conjI [OF l l']]
  note t3 = t2 [THEN conjunct2, THEN conjunct2, THEN conjunct2, THEN conjunct2, THEN conjunct2,
      THEN conjunct2, THEN spec, of 5]
  from t3 [THEN conjunct1] e
  obtain entry' where e': "basicSprites layer' 5 = Some entry'"
    by (cases "basicSprites layer' 5") simp_all
  note t4 = t3 [THEN conjunct2, THEN spec, THEN spec, THEN mp, OF conjI [OF e e']]
  note r1 = t4 [THEN conjunct2, THEN conjunct2, THEN conjunct1]
  have "Some (2::nat) \<noteq> Some 1" by simp
  note r3 = t4 [THEN conjunct2, THEN conjunct2, THEN conjunct2, THEN spec, THEN mp, OF this]
  from o1 have o1': "overlayMap entry (Some 1) \<noteq> None" by auto
  from o2 r3 have o2': "map_option spriteChains (overlayMap entry' (Some 2))
          = Some [\<lparr>vertices = 200, spriteCount = 3\<rparr>]" by simp
  from l e o1' l' e' r1 o2' show ?thesis by (intro exI conjI)
qed

text \<open>
  C9. If the flag \<^verbatim>\<open>instancingEnabled\<close> of the opaque batch of a material in a layer is
  set, then after any operation on the queue it is still set, unless the batch is gone:
  the batch is gone exactly after \<^verbatim>\<open>Clear(true)\<close>, after the release of that material
  has been notified, and after a \<^verbatim>\<open>Clear(false)\<close> that removes the layer. In particular
  \<^verbatim>\<open>AddMesh\<close>, \<^verbatim>\<open>Sort\<close> and a \<^verbatim>\<open>Clear(false)\<close> that keeps the layer leave the flag set.
  Every operation returns a queue, \<^verbatim>\<open>AddBillboards\<close> with a count of zero apart, which has
  no defined result.
\<close>

theorem instancing_flag_monotonic:
  assumes "instancing_flag_at q k mat = Some True"
  shows "(\<exists>q'. perform env call q = Inr q'
           \<and> instancing_flag_at q' k mat =
               (if call = Call_Clear True \<or> call = Call_OnMaterialInvalidation mat
                   \<or> (call = Call_Clear False \<and> 100 \<le> clearCount (layer_at q k))
                then None else Some True))
         \<or> (\<exists>ro m positionPtr sizePtr rotationPtr colorPtr.
               call = Call_AddBillboards ro m 0 positionPtr sizePtr rotationPtr colorPtr
             \<and> perform env call q = Inl OutOfRangeSubscript)"
proof (cases call)
  case (Call_AddBillboards ro m cnt positionPtr sizePtr rotationPtr colorPtr)
  show ?thesis
  proof (cases "cnt = 0")
    case True
    with Call_AddBillboards show ?thesis by (simp add: AddBillboards_zero)
  next
    case False
    with Call_AddBillboards assms show ?thesis
      by (simp add: AddBillboards_positive flag_billboards_added)
  qed
next
  case (Call_AddMesh ro m data meshAABB matrix)
  then show ?thesis using flag_AddMesh [OF assms] by simp
next
  case (Call_Clear fully)
  then show ?thesis using assms by (cases fully) (simp_all add: flag_Clear)
next
  case (Call_OnMaterialInvalidation m)
  then show ?thesis using assms by (simp add: flag_OnMaterialInvalidation)
qed (use assms in \<open>simp_all add: flag_AddBillboard flag_AddDrawable
      flag_AddSprites flag_Sort flag_OnIndexBufferInvalidation flag_OnVertexBufferInvalidation
      flag_OnTextureInvalidation\<close>)

theorem instancing_flag_monotonic_witness:
  "instancing_flag_at (AddMesh_calls test_env test_calls empty_queue) 0 1 = Some True
   \<and> perform test_env (Call_Clear False) (AddMesh_calls test_env test_calls empty_queue)
       = Inr (Clear False (AddMesh_calls test_env test_calls empty_queue))
   \<and> instancing_flag_at (Clear False (AddMesh_calls test_env test_calls empty_queue)) 0 1 = Some True
   \<and> instancing_flag_at (Sort test_env test_viewer
         (AddMesh_calls test_env test_calls empty_queue)) 0 1 = Some True
   \<and> instancing_flag_at (AddMesh test_env 0 1 test_mesh_b ((0, 0, 0), (2, 4, 6)) (0, 0, 0)
         (AddMesh_calls test_env test_calls empty_queue)) 0 1 = Some True
   \<and> instancing_flag_at (OnMaterialInvalidation 1
         (AddMesh_calls test_env test_calls empty_queue)) 0 1 = None"
proof -
  note h = test_calls_flag
  have 0: "perform test_env (Call_Clear False) (AddMesh_calls test_env test_calls empty_queue)
       = Inr (Clear False (AddMesh_calls test_env test_calls empty_queue))"
    by simp
  have 1: "instancing_flag_at (Clear False (AddMesh_calls test_env test_calls empty_queue)) 0 1
             = Some True"
    using instancing_flag_monotonic [OF h, of test_env "Call_Clear False"]
    by (simp add: test_calls_clearCount)
  have 2: "instancing_flag_at (Sort test_env test_viewer
         (AddMesh_calls test_env test_calls empty_queue)) 0 1 = Some True"
    using instancing_flag_monotonic [OF h, of test_env "Call_Sort test_viewer"]
    by simp
  have 3: "instancing_flag_at (AddMesh test_env 0 1 test_mesh_b ((0, 0, 0), (2, 4, 6)) (0, 0, 0)
         (AddMesh_calls test_env test_calls empty_queue)) 0 1 = Some True"
    using instancing_flag_monotonic [OF h, of test_env
        "Call_AddMesh 0 1 test_mesh_b ((0, 0, 0), (2, 4, 6)) (0, 0, 0)"]
    by simp
  have 4: "instancing_flag_at (OnMaterialInvalidation 1
         (AddMesh_calls test_env test_calls empty_queue)) 0 1 = None"
    using instancing_flag_monotonic [OF h, of test_env "Call_OnMaterialInvalidation 1"]
    by simp
  from h 0 1 2 3 4 show ?thesis by (intro conjI)
qed

text \<open>
  C10. The claim expects \<^verbatim>\<open>AddBillboards\<close> with a count of zero, for a material that has
  no billboard batch in the target layer, to leave an empty batch keyed by the material.
  The code does insert the batch, but then \<^verbatim>\<open>GetBillboardData\<close> evaluates
  \<^verbatim>\<open>&billboardVector[prevSize]\<close> with \<open>prevSize\<close> equal to the size of the vector: the
  subscript is out of range, the behaviour is undefined, and the call has no defined
  result. Here for material 7 and layer 0 of the empty queue.
\<close>

theorem AddBillboards_zero_out_of_range:
  "AddBillboards 0 7 0 (\<lambda>i. (0, 0, 0)) (SizeFloat (\<lambda>i. 1)) (AnglePtr None) (AlphaPtr None)
     (empty_queue :: Vector3f ForwardRenderQueue) = Inl OutOfRangeSubscript"
  by (simp add: AddBillboards_def GetBillboardData_def GetLayer_def empty_queue_def Layer_new_def
      BatchedBillboardEntry_connected_def Let_def)

end
